theory Spec2Isabelle
  imports Complex_Main
begin

section \<open>Python values\<close>

text \<open>
  The server (\<^verbatim>\<open>src/main.py\<close>) is a Flask application: every handler reads a decoded
  JSON body, validates it, and appends a record to the module-level list
  \<^verbatim>\<open>callback_logs\<close>. The embedding below follows the source function by function.

  A Python \<^verbatim>\<open>str\<close> is modelled as a \<^typ>\<open>string\<close>, one \<^typ>\<open>char\<close> per code point, so
  the model covers text whose code points lie below 256 (ASCII and Latin-1). Within that
  range the character classes of the source are exact: \<^verbatim>\<open>\d\<close> matches the ten ASCII
  digits only, \<^verbatim>\<open>[A-Z]\<close> the 26 ASCII capitals.

  A Python \<^verbatim>\<open>float\<close> is a finite binary fraction, an infinity or NaN. A finite value is
  kept as the rational number it denotes; the program only truncates floats, compares
  them with zero and stores them, so no rounding takes place on a value once decoded.
\<close>

datatype pyfloat = Finite rat | PosInf | NegInf | NaN

datatype json =
    JNull
  | JBool bool
  | JInt int
  | JFloat pyfloat
  | JStr string
  | JArr "json list"
  | JObj "(string \<times> json) list"

text \<open>
  A decoded JSON object is a Python \<^verbatim>\<open>dict\<close>; it is kept as an association list that is
  read with \<^const>\<open>map_of\<close> (the first binding of a key is the dict's value for it).
\<close>

type_synonym dict = "(string \<times> json) list"

text \<open>Python's truth value of an object, as \<^verbatim>\<open>not x\<close> and \<^verbatim>\<open>if x:\<close> read it.\<close>

fun float_truthy :: "pyfloat \<Rightarrow> bool" where
  "float_truthy (Finite q) = (q \<noteq> 0)"
| "float_truthy PosInf = True"
| "float_truthy NegInf = True"
| "float_truthy NaN = True"

fun truthy :: "json \<Rightarrow> bool" where
  "truthy JNull = False"
| "truthy (JBool b) = b"
| "truthy (JInt n) = (n \<noteq> 0)"
| "truthy (JFloat f) = float_truthy f"
| "truthy (JStr s) = (s \<noteq> [])"
| "truthy (JArr xs) = (xs \<noteq> [])"
| "truthy (JObj kvs) = (kvs \<noteq> [])"

text \<open>\<^verbatim>\<open>x < 0\<close> on a float: false for NaN and for positive infinity.\<close>

fun float_negative :: "pyfloat \<Rightarrow> bool" where
  "float_negative (Finite q) = (q < 0)"
| "float_negative NegInf = True"
| "float_negative PosInf = False"
| "float_negative NaN = False"

text \<open>\<^verbatim>\<open>data.get(key)\<close> (\<^verbatim>\<open>None\<close> when the key is absent) and \<^verbatim>\<open>data.get(key, default)\<close>.\<close>

definition dict_get :: "dict \<Rightarrow> string \<Rightarrow> json" where
  "dict_get data key = (case map_of data key of None \<Rightarrow> JNull | Some v \<Rightarrow> v)"

definition dict_get_default :: "dict \<Rightarrow> string \<Rightarrow> json \<Rightarrow> json" where
  "dict_get_default data key dflt = (case map_of data key of None \<Rightarrow> dflt | Some v \<Rightarrow> v)"

text \<open>
  The exceptions the handlers can meet. \<^verbatim>\<open>ValidationError\<close> is the program's own class
  (message and optional field name); the others are Python's built-in ones, raised by
  \<^verbatim>\<open>int\<close>, \<^verbatim>\<open>float\<close>, \<^verbatim>\<open>re.match\<close>, \<^verbatim>\<open>str.join\<close> and by attribute access
  on a value of the wrong type.
\<close>

datatype exn =
    ValidationError string "string option"
  | AttributeError
  | TypeError
  | ValueError
  | OverflowError

subsection \<open>Strings\<close>

definition is_digit :: "char \<Rightarrow> bool" where
  "is_digit c \<longleftrightarrow> c \<in> set ''0123456789''"

definition ascii_lowercase :: string where
  "ascii_lowercase = ''abcdefghijklmnopqrstuvwxyz''"

definition ascii_uppercase :: string where
  "ascii_uppercase = ''ABCDEFGHIJKLMNOPQRSTUVWXYZ''"

definition is_upper_AZ :: "char \<Rightarrow> bool" where
  "is_upper_AZ c \<longleftrightarrow> c \<in> set ascii_uppercase"

text \<open>
  \<^verbatim>\<open>str.upper()\<close>, character by character. An ASCII small letter maps to its capital;
  U+00DF (sharp s) maps to the two letters \<^verbatim>\<open>SS\<close>; the Latin-1 small letters U+00E0 to
  U+00FE (without the division sign U+00F7) map to the capital 32 places below. The
  capitals of U+00B5 and U+00FF lie beyond U+00FF and cannot be written in a
  \<^typ>\<open>char\<close>: these two are left as they are, which is still no ASCII letter, so every
  comparison of an upper-cased string with the ASCII constants of the program comes out
  as in Python.
\<close>

definition upper_char :: "char \<Rightarrow> string" where
  "upper_char c =
     (case map_of (zip ascii_lowercase ascii_uppercase) c of
        Some u \<Rightarrow> [u]
      | None \<Rightarrow>
          (if c = CHR 0xDF then ''SS''
           else if 0xE0 \<le> (of_char c :: nat) \<and> (of_char c :: nat) \<le> 0xFE \<and> c \<noteq> CHR 0xF7
             then [char_of ((of_char c :: nat) - 32)]
           else [c]))"

definition py_upper :: "string \<Rightarrow> string" where
  "py_upper s = concat (map upper_char s)"

text \<open>\<^verbatim>\<open>sep.join(xs)\<close> on a list of strings.\<close>

fun join :: "string \<Rightarrow> string list \<Rightarrow> string" where
  "join sep [] = []"
| "join sep [x] = x"
| "join sep (x # y # ys) = x @ sep @ join sep (y # ys)"

text \<open>
  \<^verbatim>\<open>int(s)\<close> on a string, base 10: white space is stripped on both sides, one sign may
  lead, and the rest is decimal digits in which single underscores may separate digits.
  Within Latin-1 the white space \<^verbatim>\<open>int\<close> skips is U+0009 to U+000D, the blank, U+0085 and
  U+00A0. CPython refuses a string of more than 4300 digits (its default
  \<^verbatim>\<open>int_max_str_digits\<close>) with the same \<^verbatim>\<open>ValueError\<close> as a malformed one.
  \<^const>\<open>None\<close> stands for that \<^verbatim>\<open>ValueError\<close>.
\<close>

definition is_space :: "char \<Rightarrow> bool" where
  "is_space c \<longleftrightarrow>
     c \<in> set [CHR 0x09, CHR 0x0A, CHR 0x0B, CHR 0x0C, CHR 0x0D, CHR 0x20, CHR 0x85, CHR 0xA0]"

definition strip_space :: "string \<Rightarrow> string" where
  "strip_space s = rev (dropWhile is_space (rev (dropWhile is_space s)))"

fun digit_groups :: "string \<Rightarrow> bool" where
  "digit_groups [] = False"
| "digit_groups [c] = is_digit c"
| "digit_groups (c # d # cs) =
     (is_digit c \<and> (if d = CHR ''_'' then digit_groups cs else digit_groups (d # cs)))"

definition digit_value :: "char \<Rightarrow> int" where
  "digit_value c = of_char c - 48"

definition decimal_value :: "string \<Rightarrow> int" where
  "decimal_value ds = foldl (\<lambda>acc c. 10 * acc + digit_value c) 0 ds"

definition int_max_str_digits :: nat where
  "int_max_str_digits = 4300"

definition split_sign :: "string \<Rightarrow> bool \<times> string" where
  "split_sign t =
     (case t of
        [] \<Rightarrow> (False, [])
      | c # cs \<Rightarrow>
          if c = CHR ''-'' then (True, cs)
          else if c = CHR ''+'' then (False, cs)
          else (False, t))"

definition py_int_str :: "string \<Rightarrow> int option" where
  "py_int_str s =
     (case split_sign (strip_space s) of
        (negative, body) \<Rightarrow>
          if digit_groups body \<and> length (filter is_digit body) \<le> int_max_str_digits
          then Some (if negative then - decimal_value (filter is_digit body)
                     else decimal_value (filter is_digit body))
          else None)"

text \<open>
  \<^verbatim>\<open>str(n)\<close> for a natural number (a list length), as an f-string prints it.
\<close>

fun str_nat :: "nat \<Rightarrow> string" where
  "str_nat n =
     (if n < 10 then [char_of (48 + n)]
      else str_nat (n div 10) @ [char_of (48 + n mod 10)])"

declare str_nat.simps [simp del]

subsection \<open>The regular expressions of the validators\<close>

text \<open>
  \<^verbatim>\<open>re.match\<close> tries the pattern at the start of the string. In Python's \<^verbatim>\<open>re\<close>, without
  the \<^verbatim>\<open>MULTILINE\<close> flag, \<^verbatim>\<open>^\<close> matches at the start only and \<^verbatim>\<open>$\<close> matches at the end
  of the string \<^emph>\<open>or just before a newline that is the last character\<close>.
\<close>

definition re_dollar :: "string \<Rightarrow> bool" where
  "re_dollar rest \<longleftrightarrow> rest = [] \<or> rest = [CHR 0x0A]"

text \<open>The alternative \<^verbatim>\<open>^\d{n}[A-Z]$\<close>, for \<^verbatim>\<open>n\<close> = 8 and 9.\<close>

definition re_digits_letter :: "nat \<Rightarrow> string \<Rightarrow> bool" where
  "re_digits_letter n s \<longleftrightarrow>
     n < length s \<and> list_all is_digit (take n s) \<and> is_upper_AZ (s ! n) \<and>
     re_dollar (drop (Suc n) s)"

text \<open>\<^verbatim>\<open>uen_pattern = r'^\d{8}[A-Z]$|^\d{9}[A-Z]$'\<close>\<close>

definition uen_pattern :: "string \<Rightarrow> bool" where
  "uen_pattern s \<longleftrightarrow> re_digits_letter 8 s \<or> re_digits_letter 9 s"

text \<open>\<^verbatim>\<open>r'^\d{6}$'\<close>\<close>

definition tax_period_pattern :: "string \<Rightarrow> bool" where
  "tax_period_pattern s \<longleftrightarrow>
     6 \<le> length s \<and> list_all is_digit (take 6 s) \<and> re_dollar (drop 6 s)"

section \<open>CallbackValidator\<close>

text \<open>
  \<^verbatim>\<open>validate_required_fields\<close>: the fields whose value is falsy (\<^verbatim>\<open>not data.get(field)\<close>)
  are collected in the order of \<^verbatim>\<open>required_fields\<close>; if there is one, a
  \<^verbatim>\<open>ValidationError\<close> without field name lists them all.
\<close>

definition validate_required_fields :: "dict \<Rightarrow> string list \<Rightarrow> exn + unit" where
  "validate_required_fields data required_fields =
     (let missing_fields = filter (\<lambda>field. \<not> truthy (dict_get data field)) required_fields
      in if missing_fields \<noteq> []
         then Inl (ValidationError (''Missing required fields: '' @ join '', '' missing_fields) None)
         else Inr ())"

definition allowed_statuses :: "string list" where
  "allowed_statuses =
     [''SUCCESS'', ''FAILED'', ''PROCESSING'', ''PENDING'', ''REJECTED'', ''CANCELLED'']"

text \<open>
  \<^verbatim>\<open>validate_submission_status\<close>. A truthy value that is no string has no method
  \<^verbatim>\<open>upper\<close>: Python raises \<^verbatim>\<open>AttributeError\<close>.
\<close>

definition validate_submission_status :: "json \<Rightarrow> exn + string" where
  "validate_submission_status status =
     (if \<not> truthy status then Inl (ValidationError ''submissionStatus is required'' None)
      else case status of
        JStr s \<Rightarrow>
          (let status_upper = py_upper s
           in if status_upper \<notin> set allowed_statuses
              then Inl (ValidationError
                     (''Invalid status. Must be one of: '' @ join '', '' allowed_statuses) None)
              else Inr status_upper)
      | _ \<Rightarrow> Inl AttributeError)"

text \<open>
  \<^verbatim>\<open>validate_uen\<close>. \<^verbatim>\<open>re.match\<close> on a truthy value that is no string raises
  \<^verbatim>\<open>TypeError\<close>.
\<close>

definition validate_uen :: "json \<Rightarrow> exn + string" where
  "validate_uen uen =
     (if \<not> truthy uen then Inl (ValidationError ''companyUEN is required'' None)
      else case uen of
        JStr s \<Rightarrow>
          (if \<not> uen_pattern s
           then Inl (ValidationError
                  ''Invalid UEN format. Expected format: 12345678A or 123456789A'' None)
           else Inr s)
      | _ \<Rightarrow> Inl TypeError)"

definition validate_form_type :: "json \<Rightarrow> exn + string" where
  "validate_form_type form_type =
     (if \<not> truthy form_type then Inl (ValidationError ''formType is required'' None)
      else case form_type of
        JStr s \<Rightarrow>
          (let form_type_upper = py_upper s
           in if form_type_upper \<notin> set [''F5'', ''F8'']
              then Inl (ValidationError ''Invalid formType. Must be F5 or F8'' None)
              else Inr form_type_upper)
      | _ \<Rightarrow> Inl AttributeError)"

text \<open>
  \<^verbatim>\<open>validate_tax_period\<close>. The two \<^verbatim>\<open>int\<close> conversions stand in a \<^verbatim>\<open>try\<close> whose handler
  turns a \<^verbatim>\<open>ValueError\<close> into \<^verbatim>\<open>ValidationError("Invalid taxPeriod format")\<close>; the year
  is converted before the month, and the range checks follow both conversions.
\<close>

definition validate_tax_period :: "json \<Rightarrow> exn + string" where
  "validate_tax_period tax_period =
     (if \<not> truthy tax_period then Inl (ValidationError ''taxPeriod is required'' None)
      else case tax_period of
        JStr s \<Rightarrow>
          (if \<not> tax_period_pattern s
           then Inl (ValidationError
                  ''Invalid taxPeriod format. Expected format: YYYYMM (e.g., 202412)'' None)
           else case py_int_str (take 4 s) of
             None \<Rightarrow> Inl (ValidationError ''Invalid taxPeriod format'' None)
           | Some year \<Rightarrow>
               (case py_int_str (drop 4 s) of
                  None \<Rightarrow> Inl (ValidationError ''Invalid taxPeriod format'' None)
                | Some month \<Rightarrow>
                    if year < 2000 \<or> year > 2100
                    then Inl (ValidationError ''Invalid year in taxPeriod'' None)
                    else if month < 1 \<or> month > 12
                    then Inl (ValidationError ''Invalid month in taxPeriod'' None)
                    else Inr s))
      | _ \<Rightarrow> Inl TypeError)"

section \<open>Requests and the Python runtime\<close>

text \<open>
  What a handler reads from Flask's \<^verbatim>\<open>request\<close> object and from the outside world during
  one request:
  \<^item> \<^verbatim>\<open>request.is_json\<close>; the outcome of \<^verbatim>\<open>request.get_json()\<close> (\<^const>\<open>Inl\<close> with the text of
    the exception when decoding raises, \<^const>\<open>Inr\<close> with the decoded value otherwise);
    the query string \<^verbatim>\<open>request.args\<close>; \<^verbatim>\<open>dict(request.headers)\<close>; \<^verbatim>\<open>request.method\<close>; and
    the result of \<^verbatim>\<open>get_client_ip()\<close>, which reads the request's headers only;
  \<^item> the identifiers \<^verbatim>\<open>uuid.uuid4()\<close> hands out (one for \<^verbatim>\<open>log_callback\<close>, one for
    \<^verbatim>\<open>create_error_response\<close>) and the readings of \<^verbatim>\<open>datetime.now().isoformat()\<close> (one for
    the log entry, one for the response).
\<close>

record request =
  is_json :: bool
  get_json :: "string + json"
  args :: "(string \<times> string) list"
  headers :: dict
  http_method :: string
  client_ip :: string
  log_uuid :: string
  log_time :: string
  error_uuid :: string
  response_time :: string

text \<open>
  Three conversions of Python are taken as given, because their results depend on binary
  floating-point rounding or on Python's printing of arbitrary objects:
  \<^verbatim>\<open>str(x)\<close> as an f-string applies it to a decoded JSON value, \<^verbatim>\<open>float(n)\<close> on an integer
  (\<^const>\<open>None\<close>: \<^verbatim>\<open>OverflowError\<close>) and \<^verbatim>\<open>float(s)\<close> on a string (\<^const>\<open>None\<close>:
  \<^verbatim>\<open>ValueError\<close>).
\<close>

record runtime =
  py_str :: "json \<Rightarrow> string"
  float_of_int :: "int \<Rightarrow> pyfloat option"
  float_of_str :: "string \<Rightarrow> pyfloat option"

subsection \<open>Numeric conversions\<close>

text \<open>\<^verbatim>\<open>int(x)\<close> on a float truncates towards zero.\<close>

definition truncate :: "rat \<Rightarrow> int" where
  "truncate q = (if 0 \<le> q then floor q else ceiling q)"

text \<open>
  \<^verbatim>\<open>int(x)\<close> on a decoded JSON value: a \<^verbatim>\<open>bool\<close> is an \<^verbatim>\<open>int\<close> in Python; NaN raises
  \<^verbatim>\<open>ValueError\<close>, an infinity \<^verbatim>\<open>OverflowError\<close>; lists, dicts and \<^verbatim>\<open>None\<close> raise
  \<^verbatim>\<open>TypeError\<close>.
\<close>

fun py_int :: "json \<Rightarrow> exn + int" where
  "py_int (JBool b) = Inr (if b then 1 else 0)"
| "py_int (JInt n) = Inr n"
| "py_int (JFloat (Finite q)) = Inr (truncate q)"
| "py_int (JFloat NaN) = Inl ValueError"
| "py_int (JFloat PosInf) = Inl OverflowError"
| "py_int (JFloat NegInf) = Inl OverflowError"
| "py_int (JStr s) = (case py_int_str s of None \<Rightarrow> Inl ValueError | Some n \<Rightarrow> Inr n)"
| "py_int (JArr xs) = Inl TypeError"
| "py_int (JObj kvs) = Inl TypeError"
| "py_int JNull = Inl TypeError"

fun py_float :: "runtime \<Rightarrow> json \<Rightarrow> exn + pyfloat" where
  "py_float rt (JBool b) = Inr (Finite (if b then 1 else 0))"
| "py_float rt (JInt n) =
     (case float_of_int rt n of None \<Rightarrow> Inl OverflowError | Some f \<Rightarrow> Inr f)"
| "py_float rt (JFloat f) = Inr f"
| "py_float rt (JStr s) =
     (case float_of_str rt s of None \<Rightarrow> Inl ValueError | Some f \<Rightarrow> Inr f)"
| "py_float rt (JArr xs) = Inl TypeError"
| "py_float rt (JObj kvs) = Inl TypeError"
| "py_float rt JNull = Inl TypeError"

text \<open>
  The block every handler uses for an optional integer field (\<^verbatim>\<open>totalRecords\<close>,
  \<^verbatim>\<open>totalDonations\<close>):
  \<^verbatim>\<open>
  if x is not None:
      try:
          x = int(x)
          if x < 0: raise ValidationError("<name> must be non-negative")
      except (ValueError, TypeError):
          raise ValidationError("<name> must be a valid integer")
  \<close>
  \<^verbatim>\<open>ValidationError\<close> is no \<^verbatim>\<open>ValueError\<close>, so the range error passes the handler
  unchanged; an \<^verbatim>\<open>OverflowError\<close> is not caught either.
\<close>

definition optional_int :: "string \<Rightarrow> json \<Rightarrow> exn + json" where
  "optional_int name x =
     (if x = JNull then Inr JNull
      else case py_int x of
        Inr n \<Rightarrow>
          if n < 0 then Inl (ValidationError (name @ '' must be non-negative'') None)
          else Inr (JInt n)
      | Inl ValueError \<Rightarrow> Inl (ValidationError (name @ '' must be a valid integer'') None)
      | Inl TypeError \<Rightarrow> Inl (ValidationError (name @ '' must be a valid integer'') None)
      | Inl e \<Rightarrow> Inl e)"

text \<open>
  The same block with \<^verbatim>\<open>float\<close> (\<^verbatim>\<open>totalTaxAmount\<close>, \<^verbatim>\<open>totalCommissionAmount\<close>,
  \<^verbatim>\<open>totalDonationAmount\<close>, \<^verbatim>\<open>stampDuty\<close>), whose message ends in "must be a valid number".
\<close>

definition optional_float :: "runtime \<Rightarrow> string \<Rightarrow> json \<Rightarrow> exn + json" where
  "optional_float rt name x =
     (if x = JNull then Inr JNull
      else case py_float rt x of
        Inr f \<Rightarrow>
          if float_negative f then Inl (ValidationError (name @ '' must be non-negative'') None)
          else Inr (JFloat f)
      | Inl ValueError \<Rightarrow> Inl (ValidationError (name @ '' must be a valid number'') None)
      | Inl TypeError \<Rightarrow> Inl (ValidationError (name @ '' must be a valid number'') None)
      | Inl e \<Rightarrow> Inl e)"

section \<open>The callback store\<close>

definition MAX_LOGS :: nat where
  "MAX_LOGS = 200"

text \<open>
  \<^verbatim>\<open>log_callback(endpoint, callback_data)\<close>: builds the log entry (the dict
  \<^verbatim>\<open>log_entry\<close>), appends it to \<^verbatim>\<open>callback_logs\<close>, and pops index 0 when the list has
  grown beyond \<^verbatim>\<open>MAX_LOGS\<close>. The list is passed in and returned; the request id is the
  first eight characters of the UUID drawn.
\<close>

definition log_entry :: "request \<Rightarrow> string \<Rightarrow> dict \<Rightarrow> dict" where
  "log_entry req endpoint callback_data =
     [(''requestId'', JStr (take 8 (log_uuid req))),
      (''timestamp'', JStr (log_time req)),
      (''endpoint'', JStr endpoint),
      (''callback_data'', JObj callback_data),
      (''headers'', JObj (headers req)),
      (''client_ip'', JStr (client_ip req)),
      (''method'', JStr (http_method req)),
      (''status'', dict_get_default callback_data ''submissionStatus'' (JStr ''UNKNOWN''))]"

definition log_callback :: "request \<Rightarrow> string \<Rightarrow> dict \<Rightarrow> dict list \<Rightarrow> string \<times> dict list" where
  "log_callback req endpoint callback_data callback_logs =
     (let request_id = take 8 (log_uuid req);
          appended = callback_logs @ [log_entry req endpoint callback_data]
      in (request_id, if length appended > MAX_LOGS then tl appended else appended))"

section \<open>Responses\<close>

text \<open>A response is the dict handed to \<^verbatim>\<open>jsonify\<close> and the HTTP status code.\<close>

type_synonym response = "dict \<times> nat"

definition create_success_response :: "request \<Rightarrow> string \<Rightarrow> json \<Rightarrow> string \<Rightarrow> dict" where
  "create_success_response req message submission_id request_id =
     [(''status'', JStr ''received''),
      (''message'', JStr message),
      (''submissionId'', submission_id),
      (''timestamp'', JStr (response_time req)),
      (''requestId'', JStr request_id)]"

text \<open>
  \<^verbatim>\<open>create_error_response(error, submission_id, status_code)\<close>. \<^verbatim>\<open>str(error)\<close> is shown only
  below status 500, where the handlers pass a \<^verbatim>\<open>ValidationError\<close>, whose text is its
  message; the text of a built-in exception goes to the operator's log only.
\<close>

fun error_detail :: "exn \<Rightarrow> string" where
  "error_detail (ValidationError message field) = message"
| "error_detail AttributeError = []"
| "error_detail TypeError = []"
| "error_detail ValueError = []"
| "error_detail OverflowError = []"

definition create_error_response :: "request \<Rightarrow> exn \<Rightarrow> json \<Rightarrow> nat \<Rightarrow> response" where
  "create_error_response req error submission_id status_code =
     ([(''status'', JStr ''error''),
       (''message'', JStr (if 500 \<le> status_code then ''Error processing callback''
                           else error_detail error)),
       (''error_id'', JStr (take 8 (error_uuid req))),
       (''submissionId'', submission_id),
       (''timestamp'', JStr (response_time req))]
      @ (case error of
           ValidationError message field \<Rightarrow>
             (''error_detail'', JStr message)
             # (case field of
                  None \<Rightarrow> []
                | Some name \<Rightarrow> if name = [] then [] else [(''field'', JStr name)])
         | _ \<Rightarrow> []),
      status_code)"

text \<open>
  The two \<^verbatim>\<open>except\<close> clauses that close every callback handler:
  \<^verbatim>\<open>except ValidationError\<close> answers 400, \<^verbatim>\<open>except Exception\<close> answers 500.
\<close>

definition on_exception :: "request \<Rightarrow> exn \<Rightarrow> json \<Rightarrow> response" where
  "on_exception req error submission_id =
     (case error of
        ValidationError message field \<Rightarrow> create_error_response req error submission_id 400
      | _ \<Rightarrow> create_error_response req error submission_id 500)"

text \<open>
  \<^verbatim>\<open>validate_json_payload\<close>. The inner \<^verbatim>\<open>ValidationError\<close> for a \<^verbatim>\<open>null\<close> body is raised
  inside the \<^verbatim>\<open>try\<close> and so is caught by its \<^verbatim>\<open>except Exception\<close> and wrapped like a
  decoding failure.
\<close>

definition validate_json_payload :: "request \<Rightarrow> exn + json" where
  "validate_json_payload req =
     (if \<not> is_json req then Inl (ValidationError ''Content-Type must be application/json'' None)
      else case get_json req of
        Inl text \<Rightarrow> Inl (ValidationError (''Invalid JSON payload: '' @ text) None)
      | Inr JNull \<Rightarrow>
          Inl (ValidationError
                (''Invalid JSON payload: Request body must contain valid JSON'') None)
      | Inr data \<Rightarrow> Inr data)"

text \<open>
  The handlers call \<^verbatim>\<open>data.get\<close> on whatever was decoded; a body that is no JSON object
  has no such method (\<^verbatim>\<open>AttributeError\<close>).
\<close>

definition as_dict :: "json \<Rightarrow> exn + dict" where
  "as_dict data = (case data of JObj kvs \<Rightarrow> Inr kvs | _ \<Rightarrow> Inl AttributeError)"

text \<open>
  The log line of the \<^verbatim>\<open>FAILED\<close> branch, \<^verbatim>\<open>', '.join(errors)\<close> under \<^verbatim>\<open>if errors:\<close>. Only
  whether it raises matters here (the text goes to the logger): \<^verbatim>\<open>str.join\<close> accepts a
  string (its characters), a dict (its keys) and a list whose items are all strings; it
  raises \<^verbatim>\<open>TypeError\<close> on a list with another item and on a number or boolean.
\<close>

fun is_JStr :: "json \<Rightarrow> bool" where
  "is_JStr (JStr s) = True"
| "is_JStr JNull = False"
| "is_JStr (JBool b) = False"
| "is_JStr (JInt n) = False"
| "is_JStr (JFloat f) = False"
| "is_JStr (JArr xs) = False"
| "is_JStr (JObj kvs) = False"

fun join_errors :: "json \<Rightarrow> exn + unit" where
  "join_errors (JStr s) = Inr ()"
| "join_errors (JObj kvs) = Inr ()"
| "join_errors (JArr xs) = (if list_all is_JStr xs then Inr () else Inl TypeError)"
| "join_errors JNull = Inl TypeError"
| "join_errors (JBool b) = Inl TypeError"
| "join_errors (JInt n) = Inl TypeError"
| "join_errors (JFloat f) = Inl TypeError"

definition log_errors :: "json \<Rightarrow> exn + unit" where
  "log_errors errors = (if truthy errors then join_errors errors else Inr ())"

text \<open>\<^verbatim>\<open>str.lower()\<close>, character by character (Latin-1 has no special case).\<close>

definition lower_char :: "char \<Rightarrow> char" where
  "lower_char c =
     (case map_of (zip ascii_uppercase ascii_lowercase) c of
        Some l \<Rightarrow> l
      | None \<Rightarrow>
          (if 0xC0 \<le> (of_char c :: nat) \<and> (of_char c :: nat) \<le> 0xDE \<and> c \<noteq> CHR 0xD7
           then char_of ((of_char c :: nat) + 32)
           else c))"

definition py_lower :: "string \<Rightarrow> string" where
  "py_lower s = map lower_char s"

section \<open>The callback endpoints\<close>

text \<open>
  Each handler is the body of its \<^verbatim>\<open>try\<close> block, statement by statement, with the two
  \<^verbatim>\<open>except\<close> clauses (\<^const>\<open>on_exception\<close>) at every point where a statement can raise.
  \<^verbatim>\<open>submission_id\<close> is \<^verbatim>\<open>None\<close> until the required fields have been checked. A
  subscript \<^verbatim>\<open>data['k']\<close> is only evaluated for a key that has passed
  \<^verbatim>\<open>validate_required_fields\<close>, so it cannot raise \<^verbatim>\<open>KeyError\<close> and is read with
  \<^const>\<open>dict_get\<close>. Calls of the logger are left out, except the one that can raise: the
  \<^verbatim>\<open>FAILED\<close> branch joins \<^verbatim>\<open>errors\<close> (\<^const>\<open>log_errors\<close>) \<^emph>\<open>after\<close> \<^verbatim>\<open>log_callback\<close> has
  stored the record.
\<close>

text \<open>\<^verbatim>\<open>gst_return_callback\<close>, \<^verbatim>\<open>POST /iras/gst-return/callback\<close>.\<close>

definition gst_return_callback :: "runtime \<Rightarrow> request \<Rightarrow> dict list \<Rightarrow> response \<times> dict list" where
  "gst_return_callback rt req callback_logs =
     (case validate_json_payload req of
        Inl e \<Rightarrow> (on_exception req e JNull, callback_logs)
      | Inr decoded \<Rightarrow>
     (case as_dict decoded of
        Inl e \<Rightarrow> (on_exception req e JNull, callback_logs)
      | Inr data \<Rightarrow>
     (case validate_required_fields data
             [''submissionId'', ''submissionStatus'', ''formType'',
              ''submissionDateTime'', ''companyUEN'', ''taxPeriod''] of
        Inl e \<Rightarrow> (on_exception req e JNull, callback_logs)
      | Inr checked \<Rightarrow>
     (let submission_id = dict_get data ''submissionId'' in
     (case validate_submission_status (dict_get data ''submissionStatus'') of
        Inl e \<Rightarrow> (on_exception req e submission_id, callback_logs)
      | Inr submission_status \<Rightarrow>
     (case validate_form_type (dict_get data ''formType'') of
        Inl e \<Rightarrow> (on_exception req e submission_id, callback_logs)
      | Inr form_type \<Rightarrow>
     (case validate_uen (dict_get data ''companyUEN'') of
        Inl e \<Rightarrow> (on_exception req e submission_id, callback_logs)
      | Inr company_uen \<Rightarrow>
     (case validate_tax_period (dict_get data ''taxPeriod'') of
        Inl e \<Rightarrow> (on_exception req e submission_id, callback_logs)
      | Inr tax_period \<Rightarrow>
     (case optional_float rt ''totalTaxAmount'' (dict_get data ''totalTaxAmount'') of
        Inl e \<Rightarrow> (on_exception req e submission_id, callback_logs)
      | Inr total_tax \<Rightarrow>
     (let callback_data =
            [(''submissionId'', submission_id),
             (''submissionStatus'', JStr submission_status),
             (''formType'', JStr form_type),
             (''submissionDateTime'', dict_get data ''submissionDateTime''),
             (''companyUEN'', JStr company_uen),
             (''taxPeriod'', JStr tax_period),
             (''acknowledgementNumber'', dict_get data ''acknowledgementNumber''),
             (''totalTaxAmount'', total_tax),
             (''errors'', dict_get_default data ''errors'' (JArr []))]
      in
      (case log_callback req ''GST-RETURN'' callback_data callback_logs of
        (request_id, logged) \<Rightarrow>
          if submission_status = ''SUCCESS''
          then ((create_success_response req
                   (''GST '' @ form_type @ '' submission for period '' @ tax_period
                      @ '' processed successfully'')
                   submission_id request_id, 200), logged)
          else if submission_status = ''FAILED''
          then (case log_errors (dict_get_default data ''errors'' (JArr [])) of
                  Inl e \<Rightarrow> (on_exception req e submission_id, logged)
                | Inr joined \<Rightarrow>
                    ((create_success_response req
                        (''GST '' @ form_type @ '' submission for period '' @ tax_period
                           @ '' failed'')
                        submission_id request_id, 200), logged))
          else ((create_success_response req
                   (''GST '' @ form_type @ '' submission for period '' @ tax_period
                      @ '' is '' @ py_lower submission_status)
                   submission_id request_id, 200), logged))))))))))))"

text \<open>\<^verbatim>\<open>form_cs_callback\<close>, \<^verbatim>\<open>POST /iras/form-cs/callback\<close>.\<close>

definition form_cs_callback :: "runtime \<Rightarrow> request \<Rightarrow> dict list \<Rightarrow> response \<times> dict list" where
  "form_cs_callback rt req callback_logs =
     (case validate_json_payload req of
        Inl e \<Rightarrow> (on_exception req e JNull, callback_logs)
      | Inr decoded \<Rightarrow>
     (case as_dict decoded of
        Inl e \<Rightarrow> (on_exception req e JNull, callback_logs)
      | Inr data \<Rightarrow>
     (case validate_required_fields data
             [''submissionId'', ''submissionStatus'', ''submissionDateTime'',
              ''companyUEN'', ''formVersion'', ''filingType''] of
        Inl e \<Rightarrow> (on_exception req e JNull, callback_logs)
      | Inr checked \<Rightarrow>
     (let submission_id = dict_get data ''submissionId'' in
     (case validate_submission_status (dict_get data ''submissionStatus'') of
        Inl e \<Rightarrow> (on_exception req e submission_id, callback_logs)
      | Inr submission_status \<Rightarrow>
     (case validate_uen (dict_get data ''companyUEN'') of
        Inl e \<Rightarrow> (on_exception req e submission_id, callback_logs)
      | Inr company_uen \<Rightarrow>
     (let callback_data =
            [(''submissionId'', submission_id),
             (''submissionStatus'', JStr submission_status),
             (''submissionDateTime'', dict_get data ''submissionDateTime''),
             (''companyUEN'', JStr company_uen),
             (''formVersion'', dict_get data ''formVersion''),
             (''filingType'', dict_get data ''filingType''),
             (''effectiveDate'', dict_get data ''effectiveDate''),
             (''acknowledgementNumber'', dict_get data ''acknowledgementNumber''),
             (''errors'', dict_get_default data ''errors'' (JArr []))]
      in
      (case log_callback req ''FORM-CS'' callback_data callback_logs of
        (request_id, logged) \<Rightarrow>
          if submission_status = ''SUCCESS''
          then ((create_success_response req
                   (''Form CS ('' @ py_str rt (dict_get data ''filingType'')
                      @ '') submission processed successfully'')
                   submission_id request_id, 200), logged)
          else if submission_status = ''FAILED''
          then (case log_errors (dict_get data ''errors'') of
                  Inl e \<Rightarrow> (on_exception req e submission_id, logged)
                | Inr joined \<Rightarrow>
                    ((create_success_response req
                        (''Form CS ('' @ py_str rt (dict_get data ''filingType'')
                           @ '') submission failed'')
                        submission_id request_id, 200), logged))
          else ((create_success_response req
                   (''Form CS ('' @ py_str rt (dict_get data ''filingType'')
                      @ '') submission is '' @ py_lower submission_status)
                   submission_id request_id, 200), logged)))))))))"

text \<open>\<^verbatim>\<open>commission_records_callback\<close>, \<^verbatim>\<open>POST /iras/commission-records/callback\<close>.\<close>

definition commission_records_callback :: "runtime \<Rightarrow> request \<Rightarrow> dict list \<Rightarrow> response \<times> dict list" where
  "commission_records_callback rt req callback_logs =
     (case validate_json_payload req of
        Inl e \<Rightarrow> (on_exception req e JNull, callback_logs)
      | Inr decoded \<Rightarrow>
     (case as_dict decoded of
        Inl e \<Rightarrow> (on_exception req e JNull, callback_logs)
      | Inr data \<Rightarrow>
     (case validate_required_fields data
             [''submissionId'', ''submissionStatus'', ''submissionDateTime'',
              ''companyUEN'', ''recordType'', ''recordPeriod''] of
        Inl e \<Rightarrow> (on_exception req e JNull, callback_logs)
      | Inr checked \<Rightarrow>
     (let submission_id = dict_get data ''submissionId'' in
     (case validate_submission_status (dict_get data ''submissionStatus'') of
        Inl e \<Rightarrow> (on_exception req e submission_id, callback_logs)
      | Inr submission_status \<Rightarrow>
     (case validate_uen (dict_get data ''companyUEN'') of
        Inl e \<Rightarrow> (on_exception req e submission_id, callback_logs)
      | Inr company_uen \<Rightarrow>
     (case optional_int ''totalRecords'' (dict_get data ''totalRecords'') of
        Inl e \<Rightarrow> (on_exception req e submission_id, callback_logs)
      | Inr total_records \<Rightarrow>
     (case optional_float rt ''totalCommissionAmount''
             (dict_get data ''totalCommissionAmount'') of
        Inl e \<Rightarrow> (on_exception req e submission_id, callback_logs)
      | Inr total_commission \<Rightarrow>
     (let callback_data =
            [(''submissionId'', submission_id),
             (''submissionStatus'', JStr submission_status),
             (''submissionDateTime'', dict_get data ''submissionDateTime''),
             (''companyUEN'', JStr company_uen),
             (''recordType'', dict_get data ''recordType''),
             (''recordPeriod'', dict_get data ''recordPeriod''),
             (''totalRecords'', total_records),
             (''totalCommissionAmount'', total_commission),
             (''acknowledgementNumber'', dict_get data ''acknowledgementNumber''),
             (''errors'', dict_get_default data ''errors'' (JArr []))]
      in
      (case log_callback req ''COMMISSION-RECORDS'' callback_data callback_logs of
        (request_id, logged) \<Rightarrow>
          if submission_status = ''SUCCESS''
          then ((create_success_response req
                   (''Commission records ('' @ py_str rt (dict_get data ''recordType'') @ '') for ''
                      @ py_str rt (dict_get data ''recordPeriod'') @ '' processed successfully'')
                   submission_id request_id, 200), logged)
          else if submission_status = ''FAILED''
          then (case log_errors (dict_get data ''errors'') of
                  Inl e \<Rightarrow> (on_exception req e submission_id, logged)
                | Inr joined \<Rightarrow>
                    ((create_success_response req
                        (''Commission records ('' @ py_str rt (dict_get data ''recordType'')
                           @ '') submission failed'')
                        submission_id request_id, 200), logged))
          else ((create_success_response req
                   (''Commission records ('' @ py_str rt (dict_get data ''recordType'')
                      @ '') submission is '' @ py_lower submission_status)
                   submission_id request_id, 200), logged)))))))))))"

text \<open>\<^verbatim>\<open>donation_records_callback\<close>, \<^verbatim>\<open>POST /iras/donation-records/callback\<close>.\<close>

definition donation_records_callback :: "runtime \<Rightarrow> request \<Rightarrow> dict list \<Rightarrow> response \<times> dict list" where
  "donation_records_callback rt req callback_logs =
     (case validate_json_payload req of
        Inl e \<Rightarrow> (on_exception req e JNull, callback_logs)
      | Inr decoded \<Rightarrow>
     (case as_dict decoded of
        Inl e \<Rightarrow> (on_exception req e JNull, callback_logs)
      | Inr data \<Rightarrow>
     (case validate_required_fields data
             [''submissionId'', ''submissionStatus'', ''submissionDateTime'',
              ''companyUEN'', ''donationType'', ''donationPeriod''] of
        Inl e \<Rightarrow> (on_exception req e JNull, callback_logs)
      | Inr checked \<Rightarrow>
     (let submission_id = dict_get data ''submissionId'' in
     (case validate_submission_status (dict_get data ''submissionStatus'') of
        Inl e \<Rightarrow> (on_exception req e submission_id, callback_logs)
      | Inr submission_status \<Rightarrow>
     (case validate_uen (dict_get data ''companyUEN'') of
        Inl e \<Rightarrow> (on_exception req e submission_id, callback_logs)
      | Inr company_uen \<Rightarrow>
     (case optional_int ''totalDonations'' (dict_get data ''totalDonations'') of
        Inl e \<Rightarrow> (on_exception req e submission_id, callback_logs)
      | Inr total_donations \<Rightarrow>
     (case optional_float rt ''totalDonationAmount''
             (dict_get data ''totalDonationAmount'') of
        Inl e \<Rightarrow> (on_exception req e submission_id, callback_logs)
      | Inr total_amount \<Rightarrow>
     (let callback_data =
            [(''submissionId'', submission_id),
             (''submissionStatus'', JStr submission_status),
             (''submissionDateTime'', dict_get data ''submissionDateTime''),
             (''companyUEN'', JStr company_uen),
             (''donationType'', dict_get data ''donationType''),
             (''donationPeriod'', dict_get data ''donationPeriod''),
             (''totalDonations'', total_donations),
             (''totalDonationAmount'', total_amount),
             (''acknowledgementNumber'', dict_get data ''acknowledgementNumber''),
             (''errors'', dict_get_default data ''errors'' (JArr []))]
      in
      (case log_callback req ''DONATION-RECORDS'' callback_data callback_logs of
        (request_id, logged) \<Rightarrow>
          if submission_status = ''SUCCESS''
          then ((create_success_response req
                   (''Donation records ('' @ py_str rt (dict_get data ''donationType'') @ '') for ''
                      @ py_str rt (dict_get data ''donationPeriod'') @ '' processed successfully'')
                   submission_id request_id, 200), logged)
          else if submission_status = ''FAILED''
          then (case log_errors (dict_get data ''errors'') of
                  Inl e \<Rightarrow> (on_exception req e submission_id, logged)
                | Inr joined \<Rightarrow>
                    ((create_success_response req
                        (''Donation records ('' @ py_str rt (dict_get data ''donationType'')
                           @ '') submission failed'')
                        submission_id request_id, 200), logged))
          else ((create_success_response req
                   (''Donation records ('' @ py_str rt (dict_get data ''donationType'')
                      @ '') submission is '' @ py_lower submission_status)
                   submission_id request_id, 200), logged)))))))))))"

text \<open>\<^verbatim>\<open>e_stamping_callback\<close>, \<^verbatim>\<open>POST /iras/e-stamping/callback\<close>.\<close>

definition e_stamping_callback :: "runtime \<Rightarrow> request \<Rightarrow> dict list \<Rightarrow> response \<times> dict list" where
  "e_stamping_callback rt req callback_logs =
     (case validate_json_payload req of
        Inl e \<Rightarrow> (on_exception req e JNull, callback_logs)
      | Inr decoded \<Rightarrow>
     (case as_dict decoded of
        Inl e \<Rightarrow> (on_exception req e JNull, callback_logs)
      | Inr data \<Rightarrow>
     (case validate_required_fields data
             [''submissionId'', ''submissionStatus'', ''submissionDateTime'',
              ''companyUEN'', ''documentType''] of
        Inl e \<Rightarrow> (on_exception req e JNull, callback_logs)
      | Inr checked \<Rightarrow>
     (let submission_id = dict_get data ''submissionId'' in
     (case validate_submission_status (dict_get data ''submissionStatus'') of
        Inl e \<Rightarrow> (on_exception req e submission_id, callback_logs)
      | Inr submission_status \<Rightarrow>
     (case validate_uen (dict_get data ''companyUEN'') of
        Inl e \<Rightarrow> (on_exception req e submission_id, callback_logs)
      | Inr company_uen \<Rightarrow>
     (case optional_float rt ''stampDuty'' (dict_get data ''stampDuty'') of
        Inl e \<Rightarrow> (on_exception req e submission_id, callback_logs)
      | Inr stamp_duty \<Rightarrow>
     (let callback_data =
            [(''submissionId'', submission_id),
             (''submissionStatus'', JStr submission_status),
             (''submissionDateTime'', dict_get data ''submissionDateTime''),
             (''companyUEN'', JStr company_uen),
             (''documentType'', dict_get data ''documentType''),
             (''stampDuty'', stamp_duty),
             (''stampCertificateNumber'', dict_get data ''stampCertificateNumber''),
             (''acknowledgementNumber'', dict_get data ''acknowledgementNumber''),
             (''errors'', dict_get_default data ''errors'' (JArr []))]
      in
      (case log_callback req ''E-STAMPING'' callback_data callback_logs of
        (request_id, logged) \<Rightarrow>
          if submission_status = ''SUCCESS''
          then ((create_success_response req
                   (''E-stamping for '' @ py_str rt (dict_get data ''documentType'')
                      @ '' processed successfully'')
                   submission_id request_id, 200), logged)
          else if submission_status = ''FAILED''
          then (case log_errors (dict_get data ''errors'') of
                  Inl e \<Rightarrow> (on_exception req e submission_id, logged)
                | Inr joined \<Rightarrow>
                    ((create_success_response req
                        (''E-stamping for '' @ py_str rt (dict_get data ''documentType'')
                           @ '' submission failed'')
                        submission_id request_id, 200), logged))
          else ((create_success_response req
                   (''E-stamping for '' @ py_str rt (dict_get data ''documentType'')
                      @ '' submission is '' @ py_lower submission_status)
                   submission_id request_id, 200), logged))))))))))"

section \<open>Reading and clearing the store\<close>

text \<open>
  A slice \<^verbatim>\<open>xs[start:]\<close>: a negative \<^verbatim>\<open>start\<close> counts from the end and is cut off at the
  front of the list; a \<^verbatim>\<open>start\<close> beyond the end gives the empty list.
\<close>

definition slice_from :: "'a list \<Rightarrow> int \<Rightarrow> 'a list" where
  "slice_from xs start =
     (if start < 0 then drop (nat (int (length xs) + start)) xs else drop (nat start) xs)"

text \<open>
  \<^verbatim>\<open>request.args.get('limit', 10, type=int)\<close>: the default when the parameter is absent
  and also when \<^verbatim>\<open>int\<close> raises \<^verbatim>\<open>ValueError\<close> on its text.
\<close>

definition limit_arg :: "request \<Rightarrow> int" where
  "limit_arg req =
     (case map_of (args req) ''limit'' of
        None \<Rightarrow> 10
      | Some raw \<Rightarrow> (case py_int_str raw of None \<Rightarrow> 10 | Some n \<Rightarrow> n))"

text \<open>\<^verbatim>\<open>get_callback_logs\<close>, \<^verbatim>\<open>GET /logs\<close>; \<^verbatim>\<open>recent_logs\<close> is the list it returns.\<close>

definition recent_logs :: "request \<Rightarrow> dict list \<Rightarrow> dict list" where
  "recent_logs req callback_logs =
     (let limit = min (limit_arg req) 50
      in if callback_logs \<noteq> [] then slice_from callback_logs (- limit) else [])"

definition get_callback_logs :: "request \<Rightarrow> dict list \<Rightarrow> response" where
  "get_callback_logs req callback_logs =
     ([(''total_callbacks'', JInt (int (length callback_logs))),
       (''returned_logs'', JInt (int (length (recent_logs req callback_logs)))),
       (''logs'', JArr (map JObj (recent_logs req callback_logs)))],
      200)"

text \<open>
  \<^verbatim>\<open>clear_logs\<close>, \<^verbatim>\<open>DELETE /logs\<close>: the number of records is read, the list is cleared,
  and the number is reported in the message.
\<close>

definition clear_logs :: "request \<Rightarrow> dict list \<Rightarrow> response \<times> dict list" where
  "clear_logs req callback_logs =
     (let logs_cleared = length callback_logs
      in (([(''message'', JStr (''Cleared '' @ str_nat logs_cleared @ '' callback logs'')),
            (''timestamp'', JStr (response_time req))],
           200),
          []))"

section \<open>Histories of the store\<close>

text \<open>
  The two operations that change \<^verbatim>\<open>callback_logs\<close>, and a run of them from a given
  state: an append is a call of \<^const>\<open>log_callback\<close>, a clear is a call of
  \<^const>\<open>clear_logs\<close>.
\<close>

datatype store_op = Append request string dict | Clear request

fun apply_op :: "dict list \<Rightarrow> store_op \<Rightarrow> dict list" where
  "apply_op callback_logs (Append req endpoint callback_data) =
     snd (log_callback req endpoint callback_data callback_logs)"
| "apply_op callback_logs (Clear req) = snd (clear_logs req callback_logs)"

definition run_ops :: "store_op list \<Rightarrow> dict list \<Rightarrow> dict list" where
  "run_ops ops callback_logs = foldl apply_op callback_logs ops"

text \<open>The record an append stores.\<close>

fun entry_of :: "store_op \<Rightarrow> dict" where
  "entry_of (Append req endpoint callback_data) = log_entry req endpoint callback_data"
| "entry_of (Clear req) = []"

fun is_append :: "store_op \<Rightarrow> bool" where
  "is_append (Append req endpoint callback_data) = True"
| "is_append (Clear req) = False"

text \<open>
  Two strings are the same but for case when upper-casing, the comparison the validators
  make, gives the same text.
\<close>

definition same_ignoring_case :: "string \<Rightarrow> string \<Rightarrow> bool" where
  "same_ignoring_case a b \<longleftrightarrow> py_upper a = py_upper b"

text \<open>The last \<open>n\<close> elements of a list, in their order.\<close>

definition newest :: "nat \<Rightarrow> 'a list \<Rightarrow> 'a list" where
  "newest n xs = drop (length xs - n) xs"

subsection \<open>The wording of the specification\<close>

text \<open>
  The specification calls a required field missing when it is "absent, null, or the
  empty string"; \<^verbatim>\<open>blank_field\<close> is that wording.
\<close>

definition blank_field :: "dict \<Rightarrow> string \<Rightarrow> bool" where
  "blank_field data field \<longleftrightarrow>
     map_of data field = None \<or> map_of data field = Some JNull
     \<or> map_of data field = Some (JStr [])"

text \<open>
  The specification's shape of a UEN: eight or nine digits and one capital letter, with
  nothing before or after. Its shape of a tax period: exactly six digits.
\<close>

definition uen_shape :: "string \<Rightarrow> bool" where
  "uen_shape s \<longleftrightarrow>
     (length s = 9 \<or> length s = 10) \<and> list_all is_digit (butlast s) \<and> is_upper_AZ (last s)"

definition six_digits :: "string \<Rightarrow> bool" where
  "six_digits s \<longleftrightarrow> length s = 6 \<and> list_all is_digit s"

text \<open>
  An optional amount is well-formed when it is absent (or null) or converts to a float
  that is not negative; \<^verbatim>\<open>amount_value\<close> is what the handler then stores for it.
\<close>

definition valid_amount :: "runtime \<Rightarrow> json \<Rightarrow> bool" where
  "valid_amount rt x \<longleftrightarrow>
     x = JNull \<or> (case py_float rt x of Inr f \<Rightarrow> \<not> float_negative f | Inl e \<Rightarrow> False)"

definition amount_value :: "runtime \<Rightarrow> json \<Rightarrow> json" where
  "amount_value rt x =
     (if x = JNull then JNull
      else case py_float rt x of Inr f \<Rightarrow> JFloat f | Inl e \<Rightarrow> JNull)"

text \<open>
  What CPython's \<^verbatim>\<open>float\<close> does on an integer, as far as the handlers depend on it: it
  raises \<^verbatim>\<open>OverflowError\<close> exactly when the integer rounds to a value beyond the largest
  float, that is from \<^verbatim>\<open>2**1024 - 2**970\<close> on in absolute value, and otherwise gives a
  float that is negative exactly when the integer is.
\<close>

definition float_overflow_bound :: int where
  "float_overflow_bound = 2 ^ 1024 - 2 ^ 970"

definition cpython_float_of_int :: "runtime \<Rightarrow> bool" where
  "cpython_float_of_int rt \<longleftrightarrow>
     (\<forall>n. (float_of_int rt n = None \<longleftrightarrow> float_overflow_bound \<le> \<bar>n\<bar>)
          \<and> (\<forall>f. float_of_int rt n = Some f \<longrightarrow> (float_negative f \<longleftrightarrow> n < 0)))"

text \<open>
  An optional amount as a sender writes it: absent (or null), or a JSON number that is
  not negative, an integer being below the bound from which \<^verbatim>\<open>float\<close> overflows.
\<close>

fun nonnegative_number :: "json \<Rightarrow> bool" where
  "nonnegative_number JNull = True"
| "nonnegative_number (JInt n) = (0 \<le> n \<and> n < float_overflow_bound)"
| "nonnegative_number (JFloat f) = (\<not> float_negative f)"
| "nonnegative_number (JBool b) = False"
| "nonnegative_number (JStr s) = False"
| "nonnegative_number (JArr xs) = False"
| "nonnegative_number (JObj kvs) = False"

text \<open>The payload kept in a log entry (its \<^verbatim>\<open>callback_data\<close>).\<close>

definition callback_data_of :: "dict \<Rightarrow> dict" where
  "callback_data_of entry =
     (case map_of entry ''callback_data'' of Some (JObj callback_data) \<Rightarrow> callback_data | _ \<Rightarrow> [])"

subsection \<open>Sample data\<close>

text \<open>A request, told apart by the UUID drawn for its log entry.\<close>

definition sample_request :: "string \<Rightarrow> request" where
  "sample_request uuid =
     \<lparr>is_json = True, get_json = Inr JNull, args = [], headers = [],
      http_method = ''POST'', client_ip = ''127.0.0.1'', log_uuid = uuid,
      log_time = ''2025-01-15T14:30:00'', error_uuid = ''0f0e0d0c-0b0a'',
      response_time = ''2025-01-15T14:30:01''\<rparr>"

text \<open>A history of 201 appends: a first, a second and 199 later ones.\<close>

definition sample_history :: "store_op list" where
  "sample_history =
     Append (sample_request ''first'') ''GST-RETURN'' []
     # Append (sample_request ''second'') ''GST-RETURN'' []
     # replicate 199 (Append (sample_request ''later'') ''GST-RETURN'' [])"

text \<open>
  A runtime: strings print as themselves, and an integer converts to the float of the
  same value unless it is out of the range of a float.
\<close>

definition sample_runtime :: runtime where
  "sample_runtime =
     \<lparr>py_str = (\<lambda>v. case v of JStr s \<Rightarrow> s | _ \<Rightarrow> ''?''),
      float_of_int =
        (\<lambda>n. if float_overflow_bound \<le> \<bar>n\<bar> then None else Some (Finite (of_int n))),
      float_of_str = (\<lambda>s. None)\<rparr>"

text \<open>A \<^verbatim>\<open>POST\<close> with a JSON object as body, and a \<^verbatim>\<open>GET\<close> with a \<^verbatim>\<open>limit\<close> parameter.\<close>

definition sample_post :: "string \<Rightarrow> dict \<Rightarrow> request" where
  "sample_post uuid data = (sample_request uuid)\<lparr>get_json := Inr (JObj data)\<rparr>"

definition sample_get :: "string \<Rightarrow> request" where
  "sample_get limit = (sample_request ''reader'')\<lparr>http_method := ''GET'', args := [(''limit'', limit)]\<rparr>"

text \<open>
  The example payload of the program's \<^verbatim>\<open>/docs\<close> endpoint, with a given status and
  \<^verbatim>\<open>errors\<close> field, and payloads for the commission and donation endpoints with a given
  count.
\<close>

definition sample_gst_payload :: "string \<Rightarrow> json \<Rightarrow> dict" where
  "sample_gst_payload submission_status errors =
     [(''submissionId'', JStr ''GST202501001234''),
      (''submissionStatus'', JStr submission_status),
      (''submissionDateTime'', JStr ''2025-01-15T14:30:00+08:00''),
      (''companyUEN'', JStr ''201234567D''),
      (''formType'', JStr ''F5''),
      (''taxPeriod'', JStr ''202412''),
      (''acknowledgementNumber'', JStr ''ACK123456789''),
      (''errors'', errors)]"

definition sample_commission_payload :: "json \<Rightarrow> dict" where
  "sample_commission_payload total_records =
     [(''submissionId'', JStr ''COM202501000001''),
      (''submissionStatus'', JStr ''SUCCESS''),
      (''submissionDateTime'', JStr ''2025-01-15T14:30:00+08:00''),
      (''companyUEN'', JStr ''201234567D''),
      (''recordType'', JStr ''AGENT''),
      (''recordPeriod'', JStr ''2024''),
      (''totalRecords'', total_records)]"

definition sample_donation_payload :: "json \<Rightarrow> dict" where
  "sample_donation_payload total_donations =
     [(''submissionId'', JStr ''DON202501000001''),
      (''submissionStatus'', JStr ''SUCCESS''),
      (''submissionDateTime'', JStr ''2025-01-15T14:30:00+08:00''),
      (''companyUEN'', JStr ''201234567D''),
      (''donationType'', JStr ''CASH''),
      (''donationPeriod'', JStr ''2024''),
      (''totalDonations'', total_donations)]"

section \<open>Auxiliary facts\<close>

lemma decimal_value_snoc: "decimal_value (ds @ [c]) = 10 * decimal_value ds + digit_value c"
  by (simp add: decimal_value_def)

lemma digit_value_char_of: "n < 10 \<Longrightarrow> digit_value (char_of (48 + n)) = int n"
proof -
  assume "n < 10"
  have "(of_char (char_of (48 + n)) :: int) = int (of_char (char_of (48 + n)))"
    by (simp only: of_nat_of_char)
  also have "\<dots> = int ((48 + n) mod 256)" by (simp only: of_char_of)
  also have "\<dots> = 48 + int n" using \<open>n < 10\<close> by simp
  finally show ?thesis by (simp add: digit_value_def)
qed

lemma decimal_value_str_nat: "decimal_value (str_nat n) = int n"
proof (induction n rule: str_nat.induct)
  case (1 n)
  show ?case
  proof (cases "n < 10")
    case True
    then show ?thesis
      by (subst str_nat.simps) (simp add: decimal_value_def digit_value_char_of)
  next
    case False
    then have "decimal_value (str_nat (n div 10)) = int (n div 10)" using 1 by simp
    moreover have "digit_value (char_of (48 + n mod 10)) = int (n mod 10)"
      by (rule digit_value_char_of) simp
    moreover have "10 * int (n div 10) + int (n mod 10) = int n"
      by (simp add: zdiv_int zmod_int)
    ultimately show ?thesis using False
      by (subst str_nat.simps) (simp add: decimal_value_snoc)
  qed
qed

lemma length_newest: "length (newest n xs) \<le> n"
  by (simp add: newest_def)

lemma newest_short: "length xs \<le> n \<Longrightarrow> newest n xs = xs"
  by (simp add: newest_def)

lemma newest_append: "newest n (newest n xs @ ys) = newest n (xs @ ys)"
proof (cases "length xs \<le> n")
  case True
  then show ?thesis by (simp add: newest_short)
next
  case False
  define d where "d = length xs - n"
  have d: "d \<le> length xs" "length xs - d = n" using False by (simp_all add: d_def)
  have "newest n (newest n xs @ ys) = drop (length ys) (drop d xs @ ys)"
    using d by (simp add: newest_def d_def[symmetric] del: drop_append)
  also have "drop d xs @ ys = drop d (xs @ ys)" using d by simp
  also have "drop (length ys) (drop d (xs @ ys)) = drop (length ys + d) (xs @ ys)"
    by (simp only: drop_drop)
  also have "length ys + d = length (xs @ ys) - n" using False by (simp add: d_def)
  finally show ?thesis by (simp only: newest_def)
qed

lemma log_callback_store:
  "snd (log_callback req ep cd logs) =
     (if length logs < MAX_LOGS then logs @ [log_entry req ep cd]
      else tl (logs @ [log_entry req ep cd]))"
  by (simp add: log_callback_def Let_def)

lemma log_callback_newest:
  assumes "length logs \<le> MAX_LOGS"
  shows "snd (log_callback req ep cd logs) = newest MAX_LOGS (logs @ [log_entry req ep cd])"
proof (cases "length logs < MAX_LOGS")
  case True
  then show ?thesis by (simp add: log_callback_store newest_short)
next
  case False
  then have "length logs = MAX_LOGS" using assms by simp
  then show ?thesis
    by (simp add: log_callback_store newest_def drop_Suc del: drop_append tl_append2)
qed

lemma length_apply_op:
  "length logs \<le> MAX_LOGS \<Longrightarrow> length (apply_op logs op) \<le> MAX_LOGS"
  by (cases op) (simp_all add: log_callback_newest length_newest clear_logs_def Let_def)

lemma length_run_ops:
  "length logs \<le> MAX_LOGS \<Longrightarrow> length (run_ops ops logs) \<le> MAX_LOGS"
  unfolding run_ops_def
  by (induction ops arbitrary: logs) (simp_all add: length_apply_op)

lemma appends_newest:
  "list_all is_append ops \<Longrightarrow>
   run_ops ops (newest MAX_LOGS xs) = newest MAX_LOGS (xs @ map entry_of ops)"
  unfolding run_ops_def
proof (induction ops arbitrary: xs)
  case Nil
  then show ?case by simp
next
  case (Cons op ops)
  then obtain req ep cd where op: "op = Append req ep cd" by (cases op) auto
  have "apply_op (newest MAX_LOGS xs) op = newest MAX_LOGS (xs @ [entry_of op])"
    by (simp add: op log_callback_newest length_newest newest_append)
  then show ?case using Cons.IH[of "xs @ [entry_of op]"] Cons.prems by simp
qed

lemma run_ops_append: "run_ops (a @ b) logs = run_ops b (run_ops a logs)"
  by (simp add: run_ops_def)

lemma run_ops_since_clear:
  "run_ops ops [] = newest MAX_LOGS (map entry_of (rev (takeWhile is_append (rev ops))))"
proof -
  let ?b = "rev (takeWhile is_append (rev ops))"
  let ?a = "rev (dropWhile is_append (rev ops))"
  have split: "ops = ?a @ ?b"
    by (metis rev_append rev_rev_ident takeWhile_dropWhile_id)
  have b: "list_all is_append ?b"
    by (simp add: list_all_iff) (metis set_takeWhileD)
  have a: "run_ops ?a [] = []"
  proof (cases "dropWhile is_append (rev ops)")
    case Nil
    then have "rev (dropWhile is_append (rev ops)) = []" by (simp only: rev.simps)
    then show ?thesis by (simp only: run_ops_def foldl_Nil)
  next
    case (Cons op rest)
    then have "\<not> is_append op" by (metis hd_dropWhile list.sel(1) list.distinct(1))
    then obtain req where "op = Clear req" by (cases op) auto
    then show ?thesis using Cons by (simp add: run_ops_def clear_logs_def Let_def)
  qed
  have "run_ops ops [] = run_ops ?b (run_ops ?a [])"
    by (subst split) (rule run_ops_append)
  also have "\<dots> = run_ops ?b (newest MAX_LOGS [])" by (simp add: a newest_def)
  also have "\<dots> = newest MAX_LOGS ([] @ map entry_of ?b)" using b by (rule appends_newest)
  finally show ?thesis by simp
qed

lemma takeWhile_all: "list_all P xs \<Longrightarrow> takeWhile P xs = xs"
  by (induction xs) auto

lemma join_allowed_statuses:
  "join '', '' allowed_statuses = ''SUCCESS, FAILED, PROCESSING, PENDING, REJECTED, CANCELLED''"
  by (simp add: allowed_statuses_def)

lemma py_upper_allowed: "c \<in> set allowed_statuses \<Longrightarrow> py_upper c = c"
  by (auto simp: allowed_statuses_def py_upper_def upper_char_def ascii_lowercase_def
      ascii_uppercase_def)

lemma py_upper_Nil: "py_upper [] = []"
  by (simp add: py_upper_def)

lemma Nil_notin_allowed: "[] \<notin> set allowed_statuses"
  by (simp add: allowed_statuses_def)


lemma falsy_values:
  "(\<not> truthy v) \<longleftrightarrow>
     (v = JNull \<or> v = JStr [] \<or> v = JBool False \<or> v = JInt 0 \<or> v = JFloat (Finite 0)
      \<or> v = JArr [] \<or> v = JObj [])"
proof (cases v)
  case (JFloat f)
  then show ?thesis by (cases f) auto
qed auto


lemmas char_eval = is_digit_def is_upper_AZ_def ascii_uppercase_def ascii_lowercase_def
  re_dollar_def

lemmas uen_eval = validate_uen_def uen_pattern_def re_digits_letter_def uen_shape_def

lemmas int_eval = py_int_str_def strip_space_def is_space_def split_sign_def decimal_value_def
  digit_value_def int_max_str_digits_def

lemmas tax_eval = validate_tax_period_def tax_period_pattern_def six_digits_def


lemma run_ops_sample_history:
  "run_ops sample_history [] =
     log_entry (sample_request ''second'') ''GST-RETURN'' []
     # replicate 199 (log_entry (sample_request ''later'') ''GST-RETURN'' [])"
proof -
  have "list_all is_append sample_history" by (simp add: sample_history_def list_all_iff)
  then have "run_ops sample_history (newest MAX_LOGS [])
      = newest MAX_LOGS ([] @ map entry_of sample_history)"
    by (rule appends_newest)
  then show ?thesis by (simp add: newest_def MAX_LOGS_def sample_history_def)
qed

lemma recent_limit_zero:
  "map_of (args req) ''limit'' = Some ''0'' \<Longrightarrow> recent_logs req callback_logs = callback_logs"
  by (simp add: recent_logs_def limit_arg_def int_eval slice_from_def char_eval)

lemmas upper_eval = py_upper_def upper_char_def

lemmas gst_eval = gst_return_callback_def validate_json_payload_def as_dict_def
  validate_required_fields_def dict_get_def dict_get_default_def
  validate_submission_status_def allowed_statuses_def validate_form_type_def
  optional_float_def log_callback_def log_errors_def on_exception_def
  create_error_response_def create_success_response_def MAX_LOGS_def
  sample_post_def sample_request_def sample_gst_payload_def Let_def


lemma digit_not_special:
  "is_digit c \<Longrightarrow> \<not> is_space c \<and> c \<noteq> CHR ''-'' \<and> c \<noteq> CHR ''+'' \<and> c \<noteq> CHR ''_''"
  by (auto simp: is_digit_def is_space_def)

lemma digit_groups_digits: "list_all is_digit ds \<Longrightarrow> ds \<noteq> [] \<Longrightarrow> digit_groups ds"
  by (induction ds rule: digit_groups.induct) (auto simp: digit_not_special)

lemma strip_space_digits:
  assumes "list_all is_digit ds"
  shows "strip_space ds = ds"
proof (cases ds rule: rev_cases)
  case Nil
  then show ?thesis by (simp add: strip_space_def)
next
  case (snoc front c)
  then have c: "\<not> is_space c" using assms by (simp add: digit_not_special)
  have "dropWhile is_space ds = ds"
  proof (cases ds)
    case Nil
    then show ?thesis by simp
  next
    case (Cons d rest)
    then have "\<not> is_space d" using assms by (simp add: digit_not_special)
    then show ?thesis using Cons by simp
  qed
  then show ?thesis using c snoc by (simp add: strip_space_def)
qed

lemma py_int_str_digits:
  assumes "list_all is_digit ds" "ds \<noteq> []" "length ds \<le> 4300"
  shows "py_int_str ds = Some (decimal_value ds)"
proof -
  obtain d rest where ds: "ds = d # rest" using assms(2) by (cases ds) auto
  then have d: "d \<noteq> CHR ''-''" "d \<noteq> CHR ''+''" using assms(1) by (simp_all add: digit_not_special)
  have sign: "split_sign ds = (False, ds)" using d by (simp add: split_sign_def ds)
  have f: "filter is_digit ds = ds" using assms(1) by (simp add: list_all_iff)
  show ?thesis
    using assms
    by (simp add: py_int_str_def strip_space_digits sign f digit_groups_digits
        int_max_str_digits_def)
qed

lemma validate_tax_period_six_digits:
  assumes "six_digits period"
    and "2000 \<le> decimal_value (take 4 period)" "decimal_value (take 4 period) \<le> 2100"
    and "1 \<le> decimal_value (drop 4 period)" "decimal_value (drop 4 period) \<le> 12"
  shows "validate_tax_period (JStr period) = Inr period"
proof -
  have len: "length period = 6" and all: "list_all is_digit period"
    using assms(1) by (simp_all add: six_digits_def)
  have pat: "tax_period_pattern period"
    using len all by (simp add: tax_period_pattern_def re_dollar_def)
  have y: "py_int_str (take 4 period) = Some (decimal_value (take 4 period))"
    using len all by (intro py_int_str_digits) (auto simp: list_all_iff dest: in_set_takeD)
  have m: "py_int_str (drop 4 period) = Some (decimal_value (drop 4 period))"
    using len all by (intro py_int_str_digits) (auto simp: list_all_iff dest: in_set_dropD)
  have ne: "period \<noteq> []" using len by auto
  show ?thesis using assms(2-5) ne by (simp add: validate_tax_period_def pat y m)
qed

lemma validate_uen_pattern: "uen_pattern uen \<Longrightarrow> validate_uen (JStr uen) = Inr uen"
  by (auto simp: validate_uen_def uen_pattern_def re_digits_letter_def)

lemma validate_form_type_F5_F8:
  "form = ''F5'' \<or> form = ''F8'' \<Longrightarrow> validate_form_type (JStr form) = Inr form"
  by (auto simp: validate_form_type_def upper_eval char_eval)

lemma validate_status_allowed:
  assumes "py_upper status \<in> set allowed_statuses"
  shows "validate_submission_status (JStr status) = Inr (py_upper status)"
proof -
  have "status \<noteq> []" using assms py_upper_Nil Nil_notin_allowed by auto
  then show ?thesis using assms by (simp add: validate_submission_status_def)
qed

lemma optional_float_valid:
  "valid_amount rt x \<Longrightarrow> optional_float rt name x = Inr (amount_value rt x)"
  by (auto simp: valid_amount_def optional_float_def amount_value_def split: sum.splits)

lemma truthy_py_upper_allowed:
  "py_upper status \<in> set allowed_statuses \<Longrightarrow> status \<noteq> []"
  using py_upper_Nil Nil_notin_allowed by auto

lemma uen_pattern_nonempty: "uen_pattern uen \<Longrightarrow> uen \<noteq> []"
  by (auto simp: uen_pattern_def re_digits_letter_def)

lemma six_digits_nonempty: "six_digits period \<Longrightarrow> period \<noteq> []"
  by (auto simp: six_digits_def)

lemma gst_return_accepted:
  assumes json: "is_json req" "get_json req = Inr (JObj data)"
    and ids: "truthy (dict_get data ''submissionId'')"
      "truthy (dict_get data ''submissionDateTime'')"
    and uen: "dict_get data ''companyUEN'' = JStr uen" "uen_pattern uen"
    and form: "dict_get data ''formType'' = JStr form" "form = ''F5'' \<or> form = ''F8''"
    and period: "dict_get data ''taxPeriod'' = JStr period" "six_digits period"
      "2000 \<le> decimal_value (take 4 period)" "decimal_value (take 4 period) \<le> 2100"
      "1 \<le> decimal_value (drop 4 period)" "decimal_value (drop 4 period) \<le> 12"
    and status: "dict_get data ''submissionStatus'' = JStr status"
      "py_upper status \<in> set allowed_statuses"
    and amount: "valid_amount rt (dict_get data ''totalTaxAmount'')"
    and errors: "py_upper status \<noteq> ''FAILED''
      \<or> log_errors (dict_get_default data ''errors'' (JArr [])) = Inr ()"
  shows "gst_return_callback rt req callback_logs =
    ((create_success_response req
        (''GST '' @ form @ '' submission for period '' @ period
           @ (if py_upper status = ''SUCCESS'' then '' processed successfully''
              else if py_upper status = ''FAILED'' then '' failed''
              else '' is '' @ py_lower (py_upper status)))
        (dict_get data ''submissionId'') (take 8 (log_uuid req)), 200),
     snd (log_callback req ''GST-RETURN''
        [(''submissionId'', dict_get data ''submissionId''),
         (''submissionStatus'', JStr (py_upper status)),
         (''formType'', JStr form),
         (''submissionDateTime'', dict_get data ''submissionDateTime''),
         (''companyUEN'', JStr uen),
         (''taxPeriod'', JStr period),
         (''acknowledgementNumber'', dict_get data ''acknowledgementNumber''),
         (''totalTaxAmount'', amount_value rt (dict_get data ''totalTaxAmount'')),
         (''errors'', dict_get_default data ''errors'' (JArr []))]
        callback_logs))"
proof -
  have payload: "validate_json_payload req = Inr (JObj data)"
    using json by (simp add: validate_json_payload_def)
  have required: "validate_required_fields data
      [''submissionId'', ''submissionStatus'', ''formType'',
       ''submissionDateTime'', ''companyUEN'', ''taxPeriod''] = Inr ()"
    using ids uen form period(1,2) status
    by (auto simp: validate_required_fields_def dest: truthy_py_upper_allowed
        uen_pattern_nonempty six_digits_nonempty)
  have v1: "validate_submission_status (dict_get data ''submissionStatus'') = Inr (py_upper status)"
    using status by (simp add: validate_status_allowed)
  have v2: "validate_form_type (dict_get data ''formType'') = Inr form"
    using form by (simp add: validate_form_type_F5_F8)
  have v3: "validate_uen (dict_get data ''companyUEN'') = Inr uen"
    using uen by (simp add: validate_uen_pattern)
  have v4: "validate_tax_period (dict_get data ''taxPeriod'') = Inr period"
    using period by (simp add: validate_tax_period_six_digits)
  have v5: "optional_float rt ''totalTaxAmount'' (dict_get data ''totalTaxAmount'')
      = Inr (amount_value rt (dict_get data ''totalTaxAmount''))"
    using amount by (rule optional_float_valid)
  show ?thesis
    using errors
    by (auto simp: gst_return_callback_def payload as_dict_def required v1 v2 v3 v4 v5 Let_def
        log_callback_def)
qed

lemma log_callback_under:
  "length logs < MAX_LOGS \<Longrightarrow>
   snd (log_callback req ep cd logs) = logs @ [log_entry req ep cd]"
  by (simp add: log_callback_store)

lemma log_callback_full:
  "length logs = MAX_LOGS \<Longrightarrow>
   snd (log_callback req ep cd logs) = tl logs @ [log_entry req ep cd]"
  by (cases logs) (auto simp: log_callback_store MAX_LOGS_def)

lemma last_log_callback: "last (snd (log_callback req ep cd logs)) = log_entry req ep cd"
proof (cases "length logs < MAX_LOGS")
  case True
  then show ?thesis by (simp add: log_callback_under)
next
  case False
  then have "snd (log_callback req ep cd logs) = tl (logs @ [log_entry req ep cd])"
    by (simp add: log_callback_store)
  moreover have "logs \<noteq> []" using False by (auto simp: MAX_LOGS_def)
  ultimately show ?thesis by simp
qed

lemma sample_gst_hyps:
  "is_json (sample_post uuid (sample_gst_payload status errors))"
  "get_json (sample_post uuid (sample_gst_payload status errors))
     = Inr (JObj (sample_gst_payload status errors))"
  "truthy (dict_get (sample_gst_payload status errors) ''submissionId'')"
  "truthy (dict_get (sample_gst_payload status errors) ''submissionDateTime'')"
  "dict_get (sample_gst_payload status errors) ''companyUEN'' = JStr ''201234567D''"
  "uen_pattern ''201234567D''"
  "dict_get (sample_gst_payload status errors) ''formType'' = JStr ''F5''"
  "dict_get (sample_gst_payload status errors) ''taxPeriod'' = JStr ''202412''"
  "six_digits ''202412''"
  "decimal_value (take 4 ''202412'') = 2024"
  "decimal_value (drop 4 ''202412'') = 12"
  "dict_get (sample_gst_payload status errors) ''submissionStatus'' = JStr status"
  "valid_amount rt (dict_get (sample_gst_payload status errors) ''totalTaxAmount'')"
  "dict_get_default (sample_gst_payload status errors) ''errors'' (JArr []) = errors"
  "dict_get (sample_gst_payload status errors) ''submissionId'' = JStr ''GST202501001234''"
  by (simp_all add: sample_post_def sample_request_def sample_gst_payload_def dict_get_def
      dict_get_default_def uen_pattern_def re_digits_letter_def six_digits_def char_eval
      decimal_value_def digit_value_def valid_amount_def)


lemma optional_int_table:
  "optional_int name JNull = Inr JNull"
  "optional_int name (JBool b) = Inr (JInt (if b then 1 else 0))"
  "optional_int name (JInt n) =
     (if n < 0 then Inl (ValidationError (name @ '' must be non-negative'') None)
      else Inr (JInt n))"
  "optional_int name (JFloat (Finite q)) =
     (if truncate q < 0 then Inl (ValidationError (name @ '' must be non-negative'') None)
      else Inr (JInt (truncate q)))"
  "optional_int name (JFloat NaN) =
     Inl (ValidationError (name @ '' must be a valid integer'') None)"
  "optional_int name (JStr s) =
     (case py_int_str s of
        None \<Rightarrow> Inl (ValidationError (name @ '' must be a valid integer'') None)
      | Some n \<Rightarrow>
          if n < 0 then Inl (ValidationError (name @ '' must be non-negative'') None)
          else Inr (JInt n))"
  "optional_int name (JArr xs) =
     Inl (ValidationError (name @ '' must be a valid integer'') None)"
  "optional_int name (JObj kvs) =
     Inl (ValidationError (name @ '' must be a valid integer'') None)"
  by (simp_all add: optional_int_def split: option.splits)

lemma truncate_examples:
  "truncate (37 / 10) = 3" "truncate (- (37 / 10)) = - 3" "truncate (- (1 / 2)) = 0"
  unfolding truncate_def by code_simp+

lemma log_errors_raises: "log_errors v = Inl e \<Longrightarrow> e = TypeError"
  by (cases v) (auto simp: log_errors_def split: if_splits)

lemma commission_records_reduced:
  assumes "is_json req" and "get_json req = Inr (JObj data)"
    and "truthy (dict_get data ''submissionId'')"
    and "truthy (dict_get data ''submissionDateTime'')"
    and "truthy (dict_get data ''recordType'')"
    and "truthy (dict_get data ''recordPeriod'')"
    and "dict_get data ''companyUEN'' = JStr uen" and "uen_pattern uen"
    and "dict_get data ''submissionStatus'' = JStr status"
    and "py_upper status \<in> set allowed_statuses"
  shows "commission_records_callback rt req callback_logs =
    (case optional_int ''totalRecords'' (dict_get data ''totalRecords'') of
       Inl e \<Rightarrow> (on_exception req e (dict_get data ''submissionId''), callback_logs)
     | Inr total_records \<Rightarrow>
    (case optional_float rt ''totalCommissionAmount'' (dict_get data ''totalCommissionAmount'') of
       Inl e \<Rightarrow> (on_exception req e (dict_get data ''submissionId''), callback_logs)
     | Inr total_commission \<Rightarrow>
    (let logged = snd (log_callback req ''COMMISSION-RECORDS''
            [(''submissionId'', dict_get data ''submissionId''),
             (''submissionStatus'', JStr (py_upper status)),
             (''submissionDateTime'', dict_get data ''submissionDateTime''),
             (''companyUEN'', JStr uen),
             (''recordType'', dict_get data ''recordType''),
             (''recordPeriod'', dict_get data ''recordPeriod''),
             (''totalRecords'', total_records),
             (''totalCommissionAmount'', total_commission),
             (''acknowledgementNumber'', dict_get data ''acknowledgementNumber''),
             (''errors'', dict_get_default data ''errors'' (JArr []))]
            callback_logs)
     in if py_upper status = ''FAILED''
           \<and> log_errors (dict_get data ''errors'') \<noteq> Inr ()
        then (on_exception req TypeError (dict_get data ''submissionId''), logged)
        else ((create_success_response req
                 (if py_upper status = ''SUCCESS''
                  then ''Commission records ('' @ py_str rt (dict_get data ''recordType'')
                       @ '') for '' @ py_str rt (dict_get data ''recordPeriod'')
                       @ '' processed successfully''
                  else if py_upper status = ''FAILED''
                  then ''Commission records ('' @ py_str rt (dict_get data ''recordType'')
                       @ '') submission failed''
                  else ''Commission records ('' @ py_str rt (dict_get data ''recordType'')
                       @ '') submission is '' @ py_lower (py_upper status))
                 (dict_get data ''submissionId'') (take 8 (log_uuid req)), 200),
              logged))))"
proof -
  have payload: "validate_json_payload req = Inr (JObj data)"
    using assms(1,2) by (simp add: validate_json_payload_def)
  have required: "validate_required_fields data
      [''submissionId'', ''submissionStatus'', ''submissionDateTime'',
       ''companyUEN'', ''recordType'', ''recordPeriod''] = Inr ()"
    using assms
    by (auto simp: validate_required_fields_def dest: truthy_py_upper_allowed
        uen_pattern_nonempty)
  have v1: "validate_submission_status (dict_get data ''submissionStatus'') = Inr (py_upper status)"
    using assms by (simp add: validate_status_allowed)
  have v3: "validate_uen (dict_get data ''companyUEN'') = Inr uen"
    using assms by (simp add: validate_uen_pattern)
  show ?thesis
    by (auto simp: commission_records_callback_def payload as_dict_def required v1 v3 Let_def
        log_callback_def split: sum.splits dest: log_errors_raises)
qed

lemma donation_records_reduced:
  assumes "is_json req" and "get_json req = Inr (JObj data)"
    and "truthy (dict_get data ''submissionId'')"
    and "truthy (dict_get data ''submissionDateTime'')"
    and "truthy (dict_get data ''donationType'')"
    and "truthy (dict_get data ''donationPeriod'')"
    and "dict_get data ''companyUEN'' = JStr uen" and "uen_pattern uen"
    and "dict_get data ''submissionStatus'' = JStr status"
    and "py_upper status \<in> set allowed_statuses"
  shows "donation_records_callback rt req callback_logs =
    (case optional_int ''totalDonations'' (dict_get data ''totalDonations'') of
       Inl e \<Rightarrow> (on_exception req e (dict_get data ''submissionId''), callback_logs)
     | Inr total_donations \<Rightarrow>
    (case optional_float rt ''totalDonationAmount'' (dict_get data ''totalDonationAmount'') of
       Inl e \<Rightarrow> (on_exception req e (dict_get data ''submissionId''), callback_logs)
     | Inr total_amount \<Rightarrow>
    (let logged = snd (log_callback req ''DONATION-RECORDS''
            [(''submissionId'', dict_get data ''submissionId''),
             (''submissionStatus'', JStr (py_upper status)),
             (''submissionDateTime'', dict_get data ''submissionDateTime''),
             (''companyUEN'', JStr uen),
             (''donationType'', dict_get data ''donationType''),
             (''donationPeriod'', dict_get data ''donationPeriod''),
             (''totalDonations'', total_donations),
             (''totalDonationAmount'', total_amount),
             (''acknowledgementNumber'', dict_get data ''acknowledgementNumber''),
             (''errors'', dict_get_default data ''errors'' (JArr []))]
            callback_logs)
     in if py_upper status = ''FAILED''
           \<and> log_errors (dict_get data ''errors'') \<noteq> Inr ()
        then (on_exception req TypeError (dict_get data ''submissionId''), logged)
        else ((create_success_response req
                 (if py_upper status = ''SUCCESS''
                  then ''Donation records ('' @ py_str rt (dict_get data ''donationType'')
                       @ '') for '' @ py_str rt (dict_get data ''donationPeriod'')
                       @ '' processed successfully''
                  else if py_upper status = ''FAILED''
                  then ''Donation records ('' @ py_str rt (dict_get data ''donationType'')
                       @ '') submission failed''
                  else ''Donation records ('' @ py_str rt (dict_get data ''donationType'')
                       @ '') submission is '' @ py_lower (py_upper status))
                 (dict_get data ''submissionId'') (take 8 (log_uuid req)), 200),
              logged))))"
proof -
  have payload: "validate_json_payload req = Inr (JObj data)"
    using assms(1,2) by (simp add: validate_json_payload_def)
  have required: "validate_required_fields data
      [''submissionId'', ''submissionStatus'', ''submissionDateTime'',
       ''companyUEN'', ''donationType'', ''donationPeriod''] = Inr ()"
    using assms
    by (auto simp: validate_required_fields_def dest: truthy_py_upper_allowed
        uen_pattern_nonempty)
  have v1: "validate_submission_status (dict_get data ''submissionStatus'') = Inr (py_upper status)"
    using assms by (simp add: validate_status_allowed)
  have v3: "validate_uen (dict_get data ''companyUEN'') = Inr uen"
    using assms by (simp add: validate_uen_pattern)
  show ?thesis
    by (auto simp: donation_records_callback_def payload as_dict_def required v1 v3 Let_def
        log_callback_def split: sum.splits dest: log_errors_raises)
qed

lemmas handler_eval = validate_json_payload_def as_dict_def
  validate_required_fields_def dict_get_def dict_get_default_def
  validate_submission_status_def allowed_statuses_def
  optional_float_def optional_int_def log_callback_def log_entry_def log_errors_def
  on_exception_def create_error_response_def create_success_response_def MAX_LOGS_def
  sample_post_def sample_request_def Let_def

lemma sample_commission_hyps:
  "is_json (sample_post uuid (sample_commission_payload x))"
  "get_json (sample_post uuid (sample_commission_payload x))
     = Inr (JObj (sample_commission_payload x))"
  "truthy (dict_get (sample_commission_payload x) ''submissionId'')"
  "truthy (dict_get (sample_commission_payload x) ''submissionDateTime'')"
  "dict_get (sample_commission_payload x) ''companyUEN'' = JStr ''201234567D''"
  "uen_pattern ''201234567D''"
  "dict_get (sample_commission_payload x) ''submissionStatus'' = JStr ''SUCCESS''"
  "py_upper ''SUCCESS'' \<in> set allowed_statuses"
  "truthy (dict_get (sample_commission_payload x) ''recordType'')
   \<and> truthy (dict_get (sample_commission_payload x) ''recordPeriod'')"
  "dict_get (sample_commission_payload x) ''totalRecords'' = x"
  "valid_amount rt (dict_get (sample_commission_payload x) ''totalCommissionAmount'')"
  "py_upper ''SUCCESS'' \<noteq> ''FAILED''"
  "dict_get (sample_commission_payload x) ''submissionId'' = JStr ''COM202501000001''"
  by (simp_all add: sample_post_def sample_request_def sample_commission_payload_def
      dict_get_def uen_pattern_def re_digits_letter_def char_eval upper_eval
      allowed_statuses_def valid_amount_def)

lemma sample_donation_hyps:
  "is_json (sample_post uuid (sample_donation_payload x))"
  "get_json (sample_post uuid (sample_donation_payload x))
     = Inr (JObj (sample_donation_payload x))"
  "truthy (dict_get (sample_donation_payload x) ''submissionId'')"
  "truthy (dict_get (sample_donation_payload x) ''submissionDateTime'')"
  "dict_get (sample_donation_payload x) ''companyUEN'' = JStr ''201234567D''"
  "uen_pattern ''201234567D''"
  "dict_get (sample_donation_payload x) ''submissionStatus'' = JStr ''SUCCESS''"
  "py_upper ''SUCCESS'' \<in> set allowed_statuses"
  "truthy (dict_get (sample_donation_payload x) ''donationType'')
   \<and> truthy (dict_get (sample_donation_payload x) ''donationPeriod'')"
  "dict_get (sample_donation_payload x) ''totalDonations'' = x"
  "valid_amount rt (dict_get (sample_donation_payload x) ''totalDonationAmount'')"
  "py_upper ''SUCCESS'' \<noteq> ''FAILED''"
  by (simp_all add: sample_post_def sample_request_def sample_donation_payload_def
      dict_get_def uen_pattern_def re_digits_letter_def char_eval upper_eval
      allowed_statuses_def valid_amount_def)

lemma nonnegative_number_valid:
  assumes "cpython_float_of_int rt" and "nonnegative_number x"
  shows "valid_amount rt x"
proof (cases x)
  case (JInt n)
  then have n: "0 \<le> n" "n < float_overflow_bound" using assms(2) by simp_all
  then have "float_of_int rt n \<noteq> None"
    using assms(1) unfolding cpython_float_of_int_def by (metis abs_of_nonneg not_le)
  then obtain f where f: "float_of_int rt n = Some f" by auto
  then have "\<not> float_negative f"
    using assms(1) n unfolding cpython_float_of_int_def by (metis not_le)
  then show ?thesis using f JInt by (simp add: valid_amount_def)
next
  case (JFloat f)
  then show ?thesis using assms(2) by (simp add: valid_amount_def)
qed (use assms(2) in \<open>simp_all add: valid_amount_def\<close>)

lemma cpython_float_of_int_sample: "cpython_float_of_int sample_runtime"
  by (auto simp: cpython_float_of_int_def sample_runtime_def)

section \<open>The bounded store\<close>

text \<open>
  Claim C1. Starting from the empty store, after any sequence of appends
  (\<^const>\<open>log_callback\<close>) and clears (\<^const>\<open>clear_logs\<close>) the store holds at most
  \<^const>\<open>MAX_LOGS\<close> = 200 records, and it holds exactly the newest 200 of the records
  appended since the last clear, in the order of their appends. An append to a store of
  fewer than 200 records adds the record at the end; an append to a full store removes
  the record at index 0 and adds the new one at the end. In particular 201 appends leave
  200 records: the list of the appended records without its first, so that the second
  appended record is the oldest one left and the first is gone (when no later record
  equals it).
\<close>

theorem store_bounded_fifo:
  "MAX_LOGS = 200
   \<and> length (run_ops ops []) \<le> MAX_LOGS
   \<and> run_ops ops [] = newest MAX_LOGS (map entry_of (rev (takeWhile is_append (rev ops))))
   \<and> (length callback_logs < MAX_LOGS \<longrightarrow>
        snd (log_callback req endpoint callback_data callback_logs)
          = callback_logs @ [log_entry req endpoint callback_data])
   \<and> (length callback_logs = MAX_LOGS \<longrightarrow>
        snd (log_callback req endpoint callback_data callback_logs)
          = tl callback_logs @ [log_entry req endpoint callback_data])
   \<and> (list_all is_append ops \<longrightarrow>
        run_ops ops [] = drop (length ops - 200) (map entry_of ops))
   \<and> (list_all is_append ops \<and> length ops = 201 \<longrightarrow>
        length (run_ops ops []) = 200
        \<and> run_ops ops [] = tl (map entry_of ops)
        \<and> hd (run_ops ops []) = entry_of (ops ! 1)
        \<and> (entry_of (ops ! 0) \<notin> set (map entry_of (tl ops)) \<longrightarrow>
             entry_of (ops ! 0) \<notin> set (run_ops ops [])))"
proof -
  have bound: "length (run_ops ops []) \<le> MAX_LOGS" by (rule length_run_ops) simp
  have since: "run_ops ops [] = newest MAX_LOGS (map entry_of (rev (takeWhile is_append (rev ops))))"
    by (rule run_ops_since_clear)
  have under: "length callback_logs < MAX_LOGS \<longrightarrow>
        snd (log_callback req endpoint callback_data callback_logs)
          = callback_logs @ [log_entry req endpoint callback_data]"
    by (simp add: log_callback_store)
  have full: "length callback_logs = MAX_LOGS \<longrightarrow>
        snd (log_callback req endpoint callback_data callback_logs)
          = tl callback_logs @ [log_entry req endpoint callback_data]"
    by (cases callback_logs) (auto simp: log_callback_store MAX_LOGS_def)
  have appends: "run_ops ops [] = drop (length ops - 200) (map entry_of ops)"
    if "list_all is_append ops"
  proof -
    have "list_all is_append (rev ops)" using that by (simp add: list_all_iff)
    then have "takeWhile is_append (rev ops) = rev ops" by (rule takeWhile_all)
    then have "rev (takeWhile is_append (rev ops)) = ops" by (simp only: rev_rev_ident)
    then have "run_ops ops [] = newest MAX_LOGS (map entry_of ops)" using since by (simp only:)
    then show ?thesis by (simp only: newest_def MAX_LOGS_def length_map)
  qed
  have many: "length (run_ops ops []) = 200
        \<and> run_ops ops [] = tl (map entry_of ops)
        \<and> hd (run_ops ops []) = entry_of (ops ! 1)
        \<and> (entry_of (ops ! 0) \<notin> set (map entry_of (tl ops)) \<longrightarrow>
             entry_of (ops ! 0) \<notin> set (run_ops ops []))"
    if all: "list_all is_append ops" and len: "length ops = 201"
  proof -
    have eq: "run_ops ops [] = tl (map entry_of ops)"
      using appends[OF all] len by (simp add: drop_Suc)
    obtain a b rest where ops: "ops = a # b # rest"
      using len by (cases ops; cases "tl ops") auto
    show ?thesis using eq len by (simp add: ops map_tl)
  qed
  have m: "MAX_LOGS = 200" by (simp add: MAX_LOGS_def)
  show ?thesis using m bound since under full appends many by blast
qed

text \<open>
  The 201 appends of \<^const>\<open>sample_history\<close>: they leave 200 records, the second one
  first, and the first one is gone.
\<close>

theorem store_bounded_fifo_witness:
  "list_all is_append sample_history
   \<and> length sample_history = 201
   \<and> entry_of (sample_history ! 0) \<notin> set (map entry_of (tl sample_history))
   \<and> length (run_ops sample_history []) = 200
   \<and> hd (run_ops sample_history []) = log_entry (sample_request ''second'') ''GST-RETURN'' []
   \<and> log_entry (sample_request ''first'') ''GST-RETURN'' [] \<notin> set (run_ops sample_history [])"
proof -
  have h1: "list_all is_append sample_history"
    by (simp add: sample_history_def list_all_iff)
  have h2: "length sample_history = 201" by (simp add: sample_history_def)
  have h3: "entry_of (sample_history ! 0) \<notin> set (map entry_of (tl sample_history))"
    by (simp add: sample_history_def log_entry_def sample_request_def)
  have e0: "entry_of (sample_history ! 0) = log_entry (sample_request ''first'') ''GST-RETURN'' []"
    by (simp add: sample_history_def)
  have e1: "entry_of (sample_history ! 1) = log_entry (sample_request ''second'') ''GST-RETURN'' []"
    by (simp add: sample_history_def)
  show ?thesis
    unfolding e0[symmetric] e1[symmetric]
    using store_bounded_fifo[of sample_history] h1 h2 h3 by blast
qed

text \<open>
  Claim C9. For every state of the store, \<^verbatim>\<open>DELETE /logs\<close> answers 200 (no error branch
  is taken), leaves the empty list, and reports the number \<open>N\<close> of records it removed in
  its message "Cleared \<open>N\<close> callback logs", \<open>N\<close> written in decimal; a \<^verbatim>\<open>GET /logs\<close> that
  follows, whatever its limit, returns no record.
\<close>

theorem clear_logs_empties:
  "snd (clear_logs req callback_logs) = []
   \<and> snd (fst (clear_logs req callback_logs)) = 200
   \<and> dict_get (fst (fst (clear_logs req callback_logs))) ''message''
       = JStr (''Cleared '' @ str_nat (length callback_logs) @ '' callback logs'')
   \<and> decimal_value (str_nat (length callback_logs)) = int (length callback_logs)
   \<and> recent_logs req' (snd (clear_logs req callback_logs)) = []
   \<and> get_callback_logs req' (snd (clear_logs req callback_logs))
       = ([(''total_callbacks'', JInt 0), (''returned_logs'', JInt 0), (''logs'', JArr [])], 200)"
  by (simp add: clear_logs_def Let_def dict_get_def recent_logs_def get_callback_logs_def
      decimal_value_str_nat)

section \<open>The validators\<close>

text \<open>
  Claim C8. \<^verbatim>\<open>validate_submission_status\<close> fails ("submissionStatus is required") when
  the status is absent (\<^verbatim>\<open>None\<close>) or the empty string. Otherwise it upper-cases the
  string; if the result is one of \<^verbatim>\<open>SUCCESS\<close>, \<^verbatim>\<open>FAILED\<close>, \<^verbatim>\<open>PROCESSING\<close>, \<^verbatim>\<open>PENDING\<close>,
  \<^verbatim>\<open>REJECTED\<close>, \<^verbatim>\<open>CANCELLED\<close> it returns the upper-cased string, and if not it fails with
  a message that lists these six. So it succeeds on a string exactly when the string is,
  but for case, one of the six.
\<close>

theorem normalize_status:
  "validate_submission_status JNull = Inl (ValidationError ''submissionStatus is required'' None)
   \<and> validate_submission_status (JStr []) =
        Inl (ValidationError ''submissionStatus is required'' None)
   \<and> (raw \<noteq> [] \<and> py_upper raw \<in> set allowed_statuses \<longrightarrow>
        validate_submission_status (JStr raw) = Inr (py_upper raw))
   \<and> (raw \<noteq> [] \<and> py_upper raw \<notin> set allowed_statuses \<longrightarrow>
        validate_submission_status (JStr raw) =
          Inl (ValidationError
            ''Invalid status. Must be one of: SUCCESS, FAILED, PROCESSING, PENDING, REJECTED, CANCELLED''
            None))
   \<and> set allowed_statuses =
        {''SUCCESS'', ''FAILED'', ''PROCESSING'', ''PENDING'', ''REJECTED'', ''CANCELLED''}
   \<and> ((\<exists>normalized. validate_submission_status (JStr raw) = Inr normalized)
        \<longleftrightarrow> (\<exists>c \<in> set allowed_statuses. same_ignoring_case raw c))"
proof -
  have a: "validate_submission_status JNull
      = Inl (ValidationError ''submissionStatus is required'' None)"
    by (simp add: validate_submission_status_def)
  have b: "validate_submission_status (JStr [])
      = Inl (ValidationError ''submissionStatus is required'' None)"
    by (simp add: validate_submission_status_def)
  have c: "validate_submission_status (JStr raw) = Inr (py_upper raw)"
    if "raw \<noteq> []" "py_upper raw \<in> set allowed_statuses"
    using that by (simp add: validate_submission_status_def)
  have d: "validate_submission_status (JStr raw) =
          Inl (ValidationError
            ''Invalid status. Must be one of: SUCCESS, FAILED, PROCESSING, PENDING, REJECTED, CANCELLED''
            None)"
    if "raw \<noteq> []" "py_upper raw \<notin> set allowed_statuses"
    using that by (simp add: validate_submission_status_def join_allowed_statuses)
  have e: "set allowed_statuses =
        {''SUCCESS'', ''FAILED'', ''PROCESSING'', ''PENDING'', ''REJECTED'', ''CANCELLED''}"
    by (simp add: allowed_statuses_def)
  have same: "(\<exists>c \<in> set allowed_statuses. same_ignoring_case raw c)
      \<longleftrightarrow> py_upper raw \<in> set allowed_statuses"
    unfolding same_ignoring_case_def using py_upper_allowed by metis
  have f: "(\<exists>normalized. validate_submission_status (JStr raw) = Inr normalized)
        \<longleftrightarrow> (\<exists>c \<in> set allowed_statuses. same_ignoring_case raw c)"
  proof (cases "raw = []")
    case True
    then show ?thesis using b same py_upper_Nil Nil_notin_allowed by simp
  next
    case False
    then show ?thesis using c d same by (cases "py_upper raw \<in> set allowed_statuses") auto
  qed
  show ?thesis using a b c d e f by blast
qed

text \<open>
  \<^verbatim>\<open>"success"\<close> is accepted and returned as \<^verbatim>\<open>"SUCCESS"\<close>; \<^verbatim>\<open>"done"\<close> is refused with the
  list of the allowed values.
\<close>

theorem normalize_status_witness:
  "''success'' \<noteq> [] \<and> py_upper ''success'' \<in> set allowed_statuses
   \<and> validate_submission_status (JStr ''success'') = Inr ''SUCCESS''
   \<and> ''done'' \<noteq> [] \<and> py_upper ''done'' \<notin> set allowed_statuses
   \<and> validate_submission_status (JStr ''done'') =
        Inl (ValidationError
          ''Invalid status. Must be one of: SUCCESS, FAILED, PROCESSING, PENDING, REJECTED, CANCELLED''
          None)"
proof -
  have u1: "py_upper ''success'' = ''SUCCESS''"
    by (simp add: py_upper_def upper_char_def ascii_lowercase_def ascii_uppercase_def)
  have u2: "py_upper ''done'' = ''DONE''"
    by (simp add: py_upper_def upper_char_def ascii_lowercase_def ascii_uppercase_def)
  have h1: "py_upper ''success'' \<in> set allowed_statuses"
    by (simp add: u1 allowed_statuses_def)
  have h2: "py_upper ''done'' \<notin> set allowed_statuses"
    by (simp add: u2 allowed_statuses_def)
  show ?thesis
    using normalize_status[of "''success''"] normalize_status[of "''done''"] h1 h2 u1
    by simp
qed

text \<open>
  Claim C3, as stated, fails: a required field that is present with the value \<^verbatim>\<open>0\<close> is
  neither absent, nor null, nor the empty string, and \<^verbatim>\<open>validate_required_fields\<close>
  reports it missing all the same.
\<close>

theorem required_fields_counterexample:
  "\<not> ((\<exists>e. validate_required_fields [(''submissionId'', JInt 0)] [''submissionId''] = Inl e)
       \<longleftrightarrow> list_ex (blank_field [(''submissionId'', JInt 0)]) [''submissionId''])"
  by (simp add: validate_required_fields_def dict_get_def blank_field_def)

text \<open>
  Claim C3, amended. \<^verbatim>\<open>validate_required_fields\<close> fails if and only if some required
  field is absent from the data or has a falsy value there: null, the empty string,
  \<^verbatim>\<open>false\<close>, the number 0 (integer or float), the empty array or the empty object. On
  failure the message is "Missing required fields: " followed by every such field, in
  the order of the list of required fields and joined by ", ", and the error names no
  field. For any other values it passes.
\<close>

theorem required_fields:
  "validate_required_fields data names =
     (if list_ex (\<lambda>field. \<not> truthy (dict_get data field)) names
      then Inl (ValidationError
             (''Missing required fields: ''
                @ join '', '' (filter (\<lambda>field. \<not> truthy (dict_get data field)) names))
             None)
      else Inr ())
   \<and> ((\<not> truthy (dict_get data field)) \<longleftrightarrow>
        (map_of data field = None \<or> map_of data field = Some JNull
         \<or> map_of data field = Some (JStr []) \<or> map_of data field = Some (JBool False)
         \<or> map_of data field = Some (JInt 0) \<or> map_of data field = Some (JFloat (Finite 0))
         \<or> map_of data field = Some (JArr []) \<or> map_of data field = Some (JObj [])))"
proof -
  have "filter (\<lambda>field. \<not> truthy (dict_get data field)) names \<noteq> []
      \<longleftrightarrow> list_ex (\<lambda>field. \<not> truthy (dict_get data field)) names"
    by (simp add: filter_empty_conv list_ex_iff)
  then have a: "validate_required_fields data names =
     (if list_ex (\<lambda>field. \<not> truthy (dict_get data field)) names
      then Inl (ValidationError
             (''Missing required fields: ''
                @ join '', '' (filter (\<lambda>field. \<not> truthy (dict_get data field)) names))
             None)
      else Inr ())"
    by (simp add: validate_required_fields_def Let_def)
  have b: "(\<not> truthy (dict_get data field)) \<longleftrightarrow>
        (map_of data field = None \<or> map_of data field = Some JNull
         \<or> map_of data field = Some (JStr []) \<or> map_of data field = Some (JBool False)
         \<or> map_of data field = Some (JInt 0) \<or> map_of data field = Some (JFloat (Finite 0))
         \<or> map_of data field = Some (JArr []) \<or> map_of data field = Some (JObj []))"
    by (cases "map_of data field") (simp_all add: dict_get_def falsy_values)
  show ?thesis using a b by blast
qed

text \<open>Two of three required fields are missing; the message names both.\<close>

theorem required_fields_witness:
  "validate_required_fields [(''submissionId'', JStr ''S1''), (''companyUEN'', JStr [])]
     [''submissionId'', ''submissionStatus'', ''companyUEN'']
   = Inl (ValidationError ''Missing required fields: submissionStatus, companyUEN'' None)"
  using required_fields[of "[(''submissionId'', JStr ''S1''), (''companyUEN'', JStr [])]"
      "[''submissionId'', ''submissionStatus'', ''companyUEN'']"]
  by (simp add: dict_get_def)

text \<open>
  Claim C4, evaluated on the code. The claim (and the comment and the error message of
  \<^verbatim>\<open>validate_uen\<close>) admit eight or nine digits and one capital letter and nothing
  else. The code's pattern ends in \<^verbatim>\<open>$\<close>, which also matches before a final newline:
  the ten characters \<^verbatim>\<open>"12345678A\n"\<close> are accepted and returned. The three examples of
  the claim come out as it says.
\<close>

theorem validate_uen_trailing_newline:
  "validate_uen (JStr (''12345678A'' @ [CHR 0x0A])) = Inr (''12345678A'' @ [CHR 0x0A])
   \<and> \<not> uen_shape (''12345678A'' @ [CHR 0x0A])
   \<and> validate_uen (JStr ''12345678A'') = Inr ''12345678A''
   \<and> validate_uen (JStr ''1234567A'') =
        Inl (ValidationError ''Invalid UEN format. Expected format: 12345678A or 123456789A'' None)
   \<and> validate_uen (JStr ''12345678a'') =
        Inl (ValidationError ''Invalid UEN format. Expected format: 12345678A or 123456789A'' None)"
  by (simp add: uen_eval char_eval)

text \<open>
  Claim C5, evaluated on the code. The claim (and the docstring and the error message of
  \<^verbatim>\<open>validate_tax_period\<close>) admit exactly six digits. The code's pattern \<^verbatim>\<open>^\d{6}$\<close> also
  matches before a final newline, and \<^verbatim>\<open>int\<close> skips the newline: the seven characters
  \<^verbatim>\<open>"202412\n"\<close> are accepted and returned. The four examples of the claim come out as it
  says.
\<close>

theorem validate_tax_period_trailing_newline:
  "validate_tax_period (JStr (''202412'' @ [CHR 0x0A])) = Inr (''202412'' @ [CHR 0x0A])
   \<and> \<not> six_digits (''202412'' @ [CHR 0x0A])
   \<and> validate_tax_period (JStr ''202412'') = Inr ''202412''
   \<and> validate_tax_period (JStr ''209912'') = Inr ''209912''
   \<and> validate_tax_period (JStr ''202413'') =
        Inl (ValidationError ''Invalid month in taxPeriod'' None)
   \<and> validate_tax_period (JStr ''189912'') =
        Inl (ValidationError ''Invalid year in taxPeriod'' None)"
  by (simp add: tax_eval int_eval char_eval)

section \<open>Reading the store\<close>

text \<open>
  Claim C6, evaluated on the code. The docstring of \<^verbatim>\<open>get_callback_logs\<close> promises "max
  50, default 10", and the claim says at most 50 records for every requested limit. The
  code bounds the limit from above only (\<^verbatim>\<open>min(limit, 50)\<close>) and then slices
  \<^verbatim>\<open>callback_logs[-limit:]\<close>: with \<^verbatim>\<open>limit=0\<close> the slice is \<^verbatim>\<open>callback_logs[0:]\<close>, the whole
  list. On a store of 200 records \<^verbatim>\<open>GET /logs?limit=0\<close> returns all 200, and
  \<^verbatim>\<open>GET /logs?limit=-5\<close> returns 195.
\<close>

theorem get_logs_limit_zero:
  "length (run_ops sample_history []) = 200
   \<and> recent_logs (sample_get ''0'') (run_ops sample_history []) = run_ops sample_history []
   \<and> length (recent_logs (sample_get ''0'') (run_ops sample_history [])) = 200
   \<and> get_callback_logs (sample_get ''0'') (run_ops sample_history []) =
       ([(''total_callbacks'', JInt 200), (''returned_logs'', JInt 200),
         (''logs'', JArr (map JObj (run_ops sample_history [])))], 200)
   \<and> length (recent_logs (sample_get ''-5'') (run_ops sample_history [])) = 195"
proof -
  have z: "recent_logs (sample_get ''0'') (run_ops sample_history []) = run_ops sample_history []"
    by (rule recent_limit_zero) (simp add: sample_get_def sample_request_def)
  have l: "length (run_ops sample_history []) = 200" by (simp add: run_ops_sample_history)
  have n: "limit_arg (sample_get ''-5'') = -5"
    by (simp add: limit_arg_def sample_get_def sample_request_def int_eval char_eval)
  have m: "length (recent_logs (sample_get ''-5'') (run_ops sample_history [])) = 195"
    by (simp add: recent_logs_def n slice_from_def run_ops_sample_history)
  show ?thesis using z l m by (simp add: get_callback_logs_def)
qed

section \<open>The callback endpoints\<close>

text \<open>
  Claim C7, evaluated on the code. The claim says that a submission is either accepted
  and appended or rejected with nothing recorded. A GST callback with status
  \<^verbatim>\<open>FAILED\<close> whose \<^verbatim>\<open>errors\<close> is a list of objects passes validation and is stored by
  \<^verbatim>\<open>log_callback\<close>; the handler then logs \<^verbatim>\<open>', '.join(errors)\<close>, which raises
  \<^verbatim>\<open>TypeError\<close>, and answers 500 "Error processing callback". The caller is told of an
  error, and the record is in the store.
\<close>

theorem gst_failed_with_error_objects:
  "gst_return_callback rt
     (sample_post ''3f2a9c1e-77aa''
        (sample_gst_payload ''FAILED'' (JArr [JObj [(''code'', JStr ''E101'')]]))) []
   = (([(''status'', JStr ''error''),
        (''message'', JStr ''Error processing callback''),
        (''error_id'', JStr ''0f0e0d0c''),
        (''submissionId'', JStr ''GST202501001234''),
        (''timestamp'', JStr ''2025-01-15T14:30:01'')], 500),
      [log_entry
         (sample_post ''3f2a9c1e-77aa''
            (sample_gst_payload ''FAILED'' (JArr [JObj [(''code'', JStr ''E101'')]])))
         ''GST-RETURN''
         [(''submissionId'', JStr ''GST202501001234''),
          (''submissionStatus'', JStr ''FAILED''),
          (''formType'', JStr ''F5''),
          (''submissionDateTime'', JStr ''2025-01-15T14:30:00+08:00''),
          (''companyUEN'', JStr ''201234567D''),
          (''taxPeriod'', JStr ''202412''),
          (''acknowledgementNumber'', JStr ''ACK123456789''),
          (''totalTaxAmount'', JNull),
          (''errors'', JArr [JObj [(''code'', JStr ''E101'')]])]])"
  by (simp add: gst_eval upper_eval uen_eval tax_eval int_eval char_eval)

text \<open>
  Claim C2, as stated, fails on a full store: the store of 200 records left by
  \<^const>\<open>sample_history\<close> receives a well-formed GST callback, the answer is 200
  "received", and the store still holds 200 records, not 201.
\<close>

theorem gst_full_store_counterexample:
  "length (run_ops sample_history []) = 200
   \<and> snd (fst (gst_return_callback sample_runtime
         (sample_post ''3f2a9c1e-77aa'' (sample_gst_payload ''SUCCESS'' (JArr [])))
         (run_ops sample_history []))) = 200
   \<and> dict_get (fst (fst (gst_return_callback sample_runtime
         (sample_post ''3f2a9c1e-77aa'' (sample_gst_payload ''SUCCESS'' (JArr [])))
         (run_ops sample_history [])))) ''status'' = JStr ''received''
   \<and> length (snd (gst_return_callback sample_runtime
         (sample_post ''3f2a9c1e-77aa'' (sample_gst_payload ''SUCCESS'' (JArr [])))
         (run_ops sample_history [])))
       \<noteq> length (run_ops sample_history []) + 1"
  by (simp add: run_ops_sample_history gst_eval upper_eval uen_eval tax_eval int_eval char_eval)

text \<open>
  Claim C2, amended. Take a GST callback, sent as JSON, whose body is an object with
  \<^item> \<^verbatim>\<open>submissionId\<close> and \<^verbatim>\<open>submissionDateTime\<close> present and truthy (a non-empty string,
    say);
  \<^item> a string \<^verbatim>\<open>companyUEN\<close> that matches the pattern; a \<^verbatim>\<open>formType\<close> of F5 or F8; a
    \<^verbatim>\<open>taxPeriod\<close> of six digits with year in 2000..2100 and month in 1..12; a string
    \<^verbatim>\<open>submissionStatus\<close> whose upper-casing is one of the six allowed values;
  \<^item> \<^verbatim>\<open>totalTaxAmount\<close> absent, null, or a JSON number that is not negative, where an
    integer is below \<^verbatim>\<open>2**1024 - 2**970\<close>, the bound from which \<^verbatim>\<open>float\<close> raises
    \<^verbatim>\<open>OverflowError\<close>.

  Two cases are left out, where the handler answers 500: an integer amount from that
  bound on, and the status \<^verbatim>\<open>FAILED\<close> with an \<^verbatim>\<open>errors\<close> value that \<^verbatim>\<open>join\<close> refuses (claim
  C7).

  Then the endpoint answers 200 with status "received" and the normalised record is the
  newest entry of the store. If the store held fewer than 200 records, the others are as
  before and the count has grown by exactly 1; if it held 200, the oldest one is gone and
  the count is still 200. The runtime is any that converts integers as CPython does
  (\<^const>\<open>cpython_float_of_int\<close>).
\<close>

theorem gst_well_formed_accepted:
  assumes "is_json req" and "get_json req = Inr (JObj data)"
    and "truthy (dict_get data ''submissionId'')"
    and "truthy (dict_get data ''submissionDateTime'')"
    and "dict_get data ''companyUEN'' = JStr uen" and "uen_pattern uen"
    and "dict_get data ''formType'' = JStr form" and "form = ''F5'' \<or> form = ''F8''"
    and "dict_get data ''taxPeriod'' = JStr period" and "six_digits period"
    and "2000 \<le> decimal_value (take 4 period)" and "decimal_value (take 4 period) \<le> 2100"
    and "1 \<le> decimal_value (drop 4 period)" and "decimal_value (drop 4 period) \<le> 12"
    and "dict_get data ''submissionStatus'' = JStr status"
    and "py_upper status \<in> set allowed_statuses"
    and "cpython_float_of_int rt"
    and "nonnegative_number (dict_get data ''totalTaxAmount'')"
    and "py_upper status \<noteq> ''FAILED''
      \<or> log_errors (dict_get_default data ''errors'' (JArr [])) = Inr ()"
  shows "snd (fst (gst_return_callback rt req callback_logs)) = 200
    \<and> dict_get (fst (fst (gst_return_callback rt req callback_logs))) ''status''
        = JStr ''received''
    \<and> last (snd (gst_return_callback rt req callback_logs)) =
        log_entry req ''GST-RETURN''
          [(''submissionId'', dict_get data ''submissionId''),
           (''submissionStatus'', JStr (py_upper status)),
           (''formType'', JStr form),
           (''submissionDateTime'', dict_get data ''submissionDateTime''),
           (''companyUEN'', JStr uen),
           (''taxPeriod'', JStr period),
           (''acknowledgementNumber'', dict_get data ''acknowledgementNumber''),
           (''totalTaxAmount'', amount_value rt (dict_get data ''totalTaxAmount'')),
           (''errors'', dict_get_default data ''errors'' (JArr []))]
    \<and> (length callback_logs < MAX_LOGS \<longrightarrow>
         butlast (snd (gst_return_callback rt req callback_logs)) = callback_logs
         \<and> length (snd (gst_return_callback rt req callback_logs)) = length callback_logs + 1)
    \<and> (length callback_logs = MAX_LOGS \<longrightarrow>
         butlast (snd (gst_return_callback rt req callback_logs)) = tl callback_logs
         \<and> length (snd (gst_return_callback rt req callback_logs)) = MAX_LOGS)"
proof -
  let ?R = "gst_return_callback rt req callback_logs"
  let ?e = "log_entry req ''GST-RETURN''
          [(''submissionId'', dict_get data ''submissionId''),
           (''submissionStatus'', JStr (py_upper status)),
           (''formType'', JStr form),
           (''submissionDateTime'', dict_get data ''submissionDateTime''),
           (''companyUEN'', JStr uen),
           (''taxPeriod'', JStr period),
           (''acknowledgementNumber'', dict_get data ''acknowledgementNumber''),
           (''totalTaxAmount'', amount_value rt (dict_get data ''totalTaxAmount'')),
           (''errors'', dict_get_default data ''errors'' (JArr []))]"
  have amount: "valid_amount rt (dict_get data ''totalTaxAmount'')"
    using assms(17,18) by (rule nonnegative_number_valid)
  note r = gst_return_accepted[OF assms(1-16) amount assms(19), of callback_logs]
  have code: "snd (fst ?R) = 200" by (simp add: r)
  have received: "dict_get (fst (fst ?R)) ''status'' = JStr ''received''"
    by (simp add: r create_success_response_def dict_get_def)
  have store: "snd ?R = snd (log_callback req ''GST-RETURN''
          [(''submissionId'', dict_get data ''submissionId''),
           (''submissionStatus'', JStr (py_upper status)),
           (''formType'', JStr form),
           (''submissionDateTime'', dict_get data ''submissionDateTime''),
           (''companyUEN'', JStr uen),
           (''taxPeriod'', JStr period),
           (''acknowledgementNumber'', dict_get data ''acknowledgementNumber''),
           (''totalTaxAmount'', amount_value rt (dict_get data ''totalTaxAmount'')),
           (''errors'', dict_get_default data ''errors'' (JArr []))] callback_logs)"
    by (simp only: r snd_conv)
  have newest: "last (snd ?R) = ?e" by (simp only: store last_log_callback)
  have under: "butlast (snd ?R) = callback_logs \<and> length (snd ?R) = length callback_logs + 1"
    if "length callback_logs < MAX_LOGS"
    using that by (simp add: store log_callback_under)
  have full: "butlast (snd ?R) = tl callback_logs \<and> length (snd ?R) = MAX_LOGS"
    if "length callback_logs = MAX_LOGS"
    using that by (simp add: store log_callback_full) (simp add: MAX_LOGS_def)
  show ?thesis using code received newest under full by blast
qed

text \<open>
  The sample payload with status \<^verbatim>\<open>"Processing"\<close> and \<^verbatim>\<open>totalTaxAmount = 15000\<close> on the
  empty store: answer 200, one record, stored with status \<^verbatim>\<open>"PROCESSING"\<close> and amount
  \<^verbatim>\<open>15000.0\<close>.
\<close>

theorem gst_well_formed_accepted_witness:
  "uen_pattern ''201234567D'' \<and> six_digits ''202412''
   \<and> py_upper ''Processing'' \<in> set allowed_statuses
   \<and> cpython_float_of_int sample_runtime
   \<and> nonnegative_number (JInt 15000)
   \<and> snd (fst (gst_return_callback sample_runtime
         (sample_post ''3f2a9c1e-77aa''
            ((''totalTaxAmount'', JInt 15000) # sample_gst_payload ''Processing'' (JArr [])))
         [])) = 200
   \<and> length (snd (gst_return_callback sample_runtime
         (sample_post ''3f2a9c1e-77aa''
            ((''totalTaxAmount'', JInt 15000) # sample_gst_payload ''Processing'' (JArr [])))
         [])) = 1
   \<and> dict_get (callback_data_of (last (snd (gst_return_callback sample_runtime
         (sample_post ''3f2a9c1e-77aa''
            ((''totalTaxAmount'', JInt 15000) # sample_gst_payload ''Processing'' (JArr [])))
         [])))) ''submissionStatus'' = JStr ''PROCESSING''
   \<and> dict_get (callback_data_of (last (snd (gst_return_callback sample_runtime
         (sample_post ''3f2a9c1e-77aa''
            ((''totalTaxAmount'', JInt 15000) # sample_gst_payload ''Processing'' (JArr [])))
         [])))) ''totalTaxAmount'' = JFloat (Finite 15000)"
proof -
  let ?data = "(''totalTaxAmount'', JInt 15000) # sample_gst_payload ''Processing'' (JArr [])"
  let ?req = "sample_post ''3f2a9c1e-77aa'' ?data"
  have up: "py_upper ''Processing'' = ''PROCESSING''" by (simp add: upper_eval char_eval)
  have st: "py_upper ''Processing'' \<in> set allowed_statuses"
    by (simp add: up allowed_statuses_def)
  have small: "nonnegative_number (JInt 15000)" by (simp add: float_overflow_bound_def)
  have h: "is_json ?req" "get_json ?req = Inr (JObj ?data)"
    "truthy (dict_get ?data ''submissionId'')"
    "truthy (dict_get ?data ''submissionDateTime'')"
    "dict_get ?data ''companyUEN'' = JStr ''201234567D''"
    "dict_get ?data ''formType'' = JStr ''F5''"
    "dict_get ?data ''taxPeriod'' = JStr ''202412''"
    "dict_get ?data ''submissionStatus'' = JStr ''Processing''"
    "dict_get ?data ''totalTaxAmount'' = JInt 15000"
    by (simp_all add: sample_post_def sample_request_def sample_gst_payload_def dict_get_def)
  have f: "''F5'' = ''F5'' \<or> ''F5'' = ''F8''" by simp
  have y: "2000 \<le> decimal_value (take 4 ''202412'')" "decimal_value (take 4 ''202412'') \<le> 2100"
    "1 \<le> decimal_value (drop 4 ''202412'')" "decimal_value (drop 4 ''202412'') \<le> 12"
    by (simp_all add: decimal_value_def digit_value_def)
  have am: "nonnegative_number (dict_get ?data ''totalTaxAmount'')"
    by (simp only: h(9) small)
  have er: "py_upper ''Processing'' \<noteq> ''FAILED''
      \<or> log_errors (dict_get_default ?data ''errors'' (JArr [])) = Inr ()"
    by (simp add: up)
  have fl: "amount_value sample_runtime (JInt 15000) = JFloat (Finite 15000)"
    by (simp add: amount_value_def sample_runtime_def float_overflow_bound_def)
  note r = gst_well_formed_accepted[where rt = sample_runtime and callback_logs = "[]",
      OF h(1-5) sample_gst_hyps(6) h(6) f h(7) sample_gst_hyps(9) y h(8) st
         cpython_float_of_int_sample am er]
  show ?thesis
    using r sample_gst_hyps(6,9) st small cpython_float_of_int_sample
    by (simp add: up h(9) fl MAX_LOGS_def callback_data_of_def log_entry_def dict_get_def)
qed

text \<open>
  Claim C10, as stated, fails in its last part ("only string values that fail integer
  parsing, and negative results, are rejected"): an array is no string, its conversion
  gives no result at all (\<^verbatim>\<open>TypeError\<close>), and the commission endpoint rejects it with 400
  "totalRecords must be a valid integer", leaving the store empty.
\<close>

theorem count_field_array_counterexample:
  "\<not> is_JStr (JArr [])
   \<and> py_int (JArr []) = Inl TypeError
   \<and> commission_records_callback sample_runtime
        (sample_post ''3f2a9c1e-77aa'' (sample_commission_payload (JArr []))) []
      = (([(''status'', JStr ''error''),
           (''message'', JStr ''totalRecords must be a valid integer''),
           (''error_id'', JStr ''0f0e0d0c''),
           (''submissionId'', JStr ''COM202501000001''),
           (''timestamp'', JStr ''2025-01-15T14:30:01''),
           (''error_detail'', JStr ''totalRecords must be a valid integer'')], 400),
         [])"
  by (simp add: commission_records_callback_def handler_eval sample_commission_payload_def
      upper_eval uen_eval char_eval)

text \<open>
  Claim C10, amended. For the optional fields \<^verbatim>\<open>totalRecords\<close> (commission records) and
  \<^verbatim>\<open>totalDonations\<close> (donation records), converted by \<^verbatim>\<open>int\<close>: a float with a fractional
  part is no type error, it is truncated towards zero (3.7 gives 3, -3.7 gives -3) and
  the truncated value is what the record stores; a boolean is taken as 1 or 0; an integer
  is taken as it is; a string is parsed. A present value is rejected with 400 "must be a
  valid integer" when the conversion raises \<^verbatim>\<open>ValueError\<close> or \<^verbatim>\<open>TypeError\<close>, that is for a
  string that does not parse, an array, an object and NaN, and with 400 "must be
  non-negative" when the converted value is negative; a rejection leaves the store as it
  was. (An infinite float raises \<^verbatim>\<open>OverflowError\<close>, which the handler does not catch; that
  case is left out.) The first eight equations are about the conversion block the two
  handlers share; the rest is about the two endpoints, for a payload whose other fields
  are well-formed.
\<close>

theorem optional_count_fields:
  assumes "is_json req" and "get_json req = Inr (JObj data)"
    and "truthy (dict_get data ''submissionId'')"
    and "truthy (dict_get data ''submissionDateTime'')"
    and "dict_get data ''companyUEN'' = JStr uen" and "uen_pattern uen"
    and "dict_get data ''submissionStatus'' = JStr status"
    and "py_upper status \<in> set allowed_statuses"
  shows "optional_int name (JFloat (Finite q)) =
       (if truncate q < 0 then Inl (ValidationError (name @ '' must be non-negative'') None)
        else Inr (JInt (truncate q)))
    \<and> truncate (37 / 10) = 3 \<and> truncate (- (37 / 10)) = - 3
    \<and> optional_int name (JBool b) = Inr (JInt (if b then 1 else 0))
    \<and> optional_int name (JInt i) =
       (if i < 0 then Inl (ValidationError (name @ '' must be non-negative'') None)
        else Inr (JInt i))
    \<and> optional_int name (JStr s) =
       (case py_int_str s of
          None \<Rightarrow> Inl (ValidationError (name @ '' must be a valid integer'') None)
        | Some i \<Rightarrow>
            if i < 0 then Inl (ValidationError (name @ '' must be non-negative'') None)
            else Inr (JInt i))
    \<and> optional_int name (JArr xs) =
         Inl (ValidationError (name @ '' must be a valid integer'') None)
    \<and> optional_int name (JObj kvs) =
         Inl (ValidationError (name @ '' must be a valid integer'') None)
    \<and> optional_int name (JFloat NaN) =
         Inl (ValidationError (name @ '' must be a valid integer'') None)
    \<and> optional_int name JNull = Inr JNull
    \<and> (truthy (dict_get data ''recordType'') \<and> truthy (dict_get data ''recordPeriod'') \<longrightarrow>
        (\<forall>message field.
           optional_int ''totalRecords'' (dict_get data ''totalRecords'')
             = Inl (ValidationError message field) \<longrightarrow>
           commission_records_callback rt req callback_logs =
             (create_error_response req (ValidationError message field)
                (dict_get data ''submissionId'') 400, callback_logs))
        \<and> (\<forall>n.
           optional_int ''totalRecords'' (dict_get data ''totalRecords'') = Inr n
           \<and> valid_amount rt (dict_get data ''totalCommissionAmount'')
           \<and> (py_upper status \<noteq> ''FAILED'' \<or> log_errors (dict_get data ''errors'') = Inr ())
           \<longrightarrow>
           snd (fst (commission_records_callback rt req callback_logs)) = 200
           \<and> dict_get (callback_data_of (last (snd (commission_records_callback rt req callback_logs))))
                ''totalRecords'' = n))
    \<and> (truthy (dict_get data ''donationType'') \<and> truthy (dict_get data ''donationPeriod'') \<longrightarrow>
        (\<forall>message field.
           optional_int ''totalDonations'' (dict_get data ''totalDonations'')
             = Inl (ValidationError message field) \<longrightarrow>
           donation_records_callback rt req callback_logs =
             (create_error_response req (ValidationError message field)
                (dict_get data ''submissionId'') 400, callback_logs))
        \<and> (\<forall>n.
           optional_int ''totalDonations'' (dict_get data ''totalDonations'') = Inr n
           \<and> valid_amount rt (dict_get data ''totalDonationAmount'')
           \<and> (py_upper status \<noteq> ''FAILED'' \<or> log_errors (dict_get data ''errors'') = Inr ())
           \<longrightarrow>
           snd (fst (donation_records_callback rt req callback_logs)) = 200
           \<and> dict_get (callback_data_of (last (snd (donation_records_callback rt req callback_logs))))
                ''totalDonations'' = n))"
proof -
  have table: "optional_int name (JFloat (Finite q)) =
       (if truncate q < 0 then Inl (ValidationError (name @ '' must be non-negative'') None)
        else Inr (JInt (truncate q)))
    \<and> truncate (37 / 10) = 3 \<and> truncate (- (37 / 10)) = - 3
    \<and> optional_int name (JBool b) = Inr (JInt (if b then 1 else 0))
    \<and> optional_int name (JInt i) =
       (if i < 0 then Inl (ValidationError (name @ '' must be non-negative'') None)
        else Inr (JInt i))
    \<and> optional_int name (JStr s) =
       (case py_int_str s of
          None \<Rightarrow> Inl (ValidationError (name @ '' must be a valid integer'') None)
        | Some i \<Rightarrow>
            if i < 0 then Inl (ValidationError (name @ '' must be non-negative'') None)
            else Inr (JInt i))
    \<and> optional_int name (JArr xs) =
         Inl (ValidationError (name @ '' must be a valid integer'') None)
    \<and> optional_int name (JObj kvs) =
         Inl (ValidationError (name @ '' must be a valid integer'') None)
    \<and> optional_int name (JFloat NaN) =
         Inl (ValidationError (name @ '' must be a valid integer'') None)
    \<and> optional_int name JNull = Inr JNull"
    by (simp add: optional_int_table truncate_examples)
  have com: "(truthy (dict_get data ''recordType'') \<and> truthy (dict_get data ''recordPeriod'') \<longrightarrow>
        (\<forall>message field.
           optional_int ''totalRecords'' (dict_get data ''totalRecords'')
             = Inl (ValidationError message field) \<longrightarrow>
           commission_records_callback rt req callback_logs =
             (create_error_response req (ValidationError message field)
                (dict_get data ''submissionId'') 400, callback_logs))
        \<and> (\<forall>n.
           optional_int ''totalRecords'' (dict_get data ''totalRecords'') = Inr n
           \<and> valid_amount rt (dict_get data ''totalCommissionAmount'')
           \<and> (py_upper status \<noteq> ''FAILED'' \<or> log_errors (dict_get data ''errors'') = Inr ())
           \<longrightarrow>
           snd (fst (commission_records_callback rt req callback_logs)) = 200
           \<and> dict_get (callback_data_of (last (snd (commission_records_callback rt req callback_logs))))
                ''totalRecords'' = n))"
  proof (intro impI conjI allI)
    fix message field
    assume t: "truthy (dict_get data ''recordType'') \<and> truthy (dict_get data ''recordPeriod'')"
      and bad: "optional_int ''totalRecords'' (dict_get data ''totalRecords'')
             = Inl (ValidationError message field)"
    show "commission_records_callback rt req callback_logs =
             (create_error_response req (ValidationError message field)
                (dict_get data ''submissionId'') 400, callback_logs)"
      using t bad commission_records_reduced[OF assms(1-4) _ _ assms(5-8), of rt callback_logs]
      by (simp add: on_exception_def)
  next
    fix n
    assume t: "truthy (dict_get data ''recordType'') \<and> truthy (dict_get data ''recordPeriod'')"
      and ok: "optional_int ''totalRecords'' (dict_get data ''totalRecords'') = Inr n
           \<and> valid_amount rt (dict_get data ''totalCommissionAmount'')
           \<and> (py_upper status \<noteq> ''FAILED'' \<or> log_errors (dict_get data ''errors'') = Inr ())"
    have fl: "optional_float rt ''totalCommissionAmount'' (dict_get data ''totalCommissionAmount'')
        = Inr (amount_value rt (dict_get data ''totalCommissionAmount''))"
      using ok by (simp add: optional_float_valid)
    note r = commission_records_reduced[OF assms(1-4) _ _ assms(5-8), of rt callback_logs]
    show "snd (fst (commission_records_callback rt req callback_logs)) = 200"
      using t ok by (auto simp: r fl Let_def)
    have "snd (commission_records_callback rt req callback_logs) =
        snd (log_callback req ''COMMISSION-RECORDS''
            [(''submissionId'', dict_get data ''submissionId''),
             (''submissionStatus'', JStr (py_upper status)),
             (''submissionDateTime'', dict_get data ''submissionDateTime''),
             (''companyUEN'', JStr uen),
             (''recordType'', dict_get data ''recordType''),
             (''recordPeriod'', dict_get data ''recordPeriod''),
             (''totalRecords'', n),
             (''totalCommissionAmount'', amount_value rt (dict_get data ''totalCommissionAmount'')),
             (''acknowledgementNumber'', dict_get data ''acknowledgementNumber''),
             (''errors'', dict_get_default data ''errors'' (JArr []))]
            callback_logs)"
      using t ok by (auto simp: r fl Let_def)
    then have "last (snd (commission_records_callback rt req callback_logs)) =
        log_entry req ''COMMISSION-RECORDS''
            [(''submissionId'', dict_get data ''submissionId''),
             (''submissionStatus'', JStr (py_upper status)),
             (''submissionDateTime'', dict_get data ''submissionDateTime''),
             (''companyUEN'', JStr uen),
             (''recordType'', dict_get data ''recordType''),
             (''recordPeriod'', dict_get data ''recordPeriod''),
             (''totalRecords'', n),
             (''totalCommissionAmount'', amount_value rt (dict_get data ''totalCommissionAmount'')),
             (''acknowledgementNumber'', dict_get data ''acknowledgementNumber''),
             (''errors'', dict_get_default data ''errors'' (JArr []))]"
      by (simp only: last_log_callback)
    then show "dict_get (callback_data_of (last (snd (commission_records_callback rt req callback_logs))))
                ''totalRecords'' = n"
      by (simp add: log_entry_def callback_data_of_def dict_get_def)
  qed
  have don: "(truthy (dict_get data ''donationType'') \<and> truthy (dict_get data ''donationPeriod'') \<longrightarrow>
        (\<forall>message field.
           optional_int ''totalDonations'' (dict_get data ''totalDonations'')
             = Inl (ValidationError message field) \<longrightarrow>
           donation_records_callback rt req callback_logs =
             (create_error_response req (ValidationError message field)
                (dict_get data ''submissionId'') 400, callback_logs))
        \<and> (\<forall>n.
           optional_int ''totalDonations'' (dict_get data ''totalDonations'') = Inr n
           \<and> valid_amount rt (dict_get data ''totalDonationAmount'')
           \<and> (py_upper status \<noteq> ''FAILED'' \<or> log_errors (dict_get data ''errors'') = Inr ())
           \<longrightarrow>
           snd (fst (donation_records_callback rt req callback_logs)) = 200
           \<and> dict_get (callback_data_of (last (snd (donation_records_callback rt req callback_logs))))
                ''totalDonations'' = n))"
  proof (intro impI conjI allI)
    fix message field
    assume t: "truthy (dict_get data ''donationType'') \<and> truthy (dict_get data ''donationPeriod'')"
      and bad: "optional_int ''totalDonations'' (dict_get data ''totalDonations'')
             = Inl (ValidationError message field)"
    show "donation_records_callback rt req callback_logs =
             (create_error_response req (ValidationError message field)
                (dict_get data ''submissionId'') 400, callback_logs)"
      using t bad donation_records_reduced[OF assms(1-4) _ _ assms(5-8), of rt callback_logs]
      by (simp add: on_exception_def)
  next
    fix n
    assume t: "truthy (dict_get data ''donationType'') \<and> truthy (dict_get data ''donationPeriod'')"
      and ok: "optional_int ''totalDonations'' (dict_get data ''totalDonations'') = Inr n
           \<and> valid_amount rt (dict_get data ''totalDonationAmount'')
           \<and> (py_upper status \<noteq> ''FAILED'' \<or> log_errors (dict_get data ''errors'') = Inr ())"
    have fl: "optional_float rt ''totalDonationAmount'' (dict_get data ''totalDonationAmount'')
        = Inr (amount_value rt (dict_get data ''totalDonationAmount''))"
      using ok by (simp add: optional_float_valid)
    note r = donation_records_reduced[OF assms(1-4) _ _ assms(5-8), of rt callback_logs]
    show "snd (fst (donation_records_callback rt req callback_logs)) = 200"
      using t ok by (auto simp: r fl Let_def)
    have "snd (donation_records_callback rt req callback_logs) =
        snd (log_callback req ''DONATION-RECORDS''
            [(''submissionId'', dict_get data ''submissionId''),
             (''submissionStatus'', JStr (py_upper status)),
             (''submissionDateTime'', dict_get data ''submissionDateTime''),
             (''companyUEN'', JStr uen),
             (''donationType'', dict_get data ''donationType''),
             (''donationPeriod'', dict_get data ''donationPeriod''),
             (''totalDonations'', n),
             (''totalDonationAmount'', amount_value rt (dict_get data ''totalDonationAmount'')),
             (''acknowledgementNumber'', dict_get data ''acknowledgementNumber''),
             (''errors'', dict_get_default data ''errors'' (JArr []))]
            callback_logs)"
      using t ok by (auto simp: r fl Let_def)
    then have "last (snd (donation_records_callback rt req callback_logs)) =
        log_entry req ''DONATION-RECORDS''
            [(''submissionId'', dict_get data ''submissionId''),
             (''submissionStatus'', JStr (py_upper status)),
             (''submissionDateTime'', dict_get data ''submissionDateTime''),
             (''companyUEN'', JStr uen),
             (''donationType'', dict_get data ''donationType''),
             (''donationPeriod'', dict_get data ''donationPeriod''),
             (''totalDonations'', n),
             (''totalDonationAmount'', amount_value rt (dict_get data ''totalDonationAmount'')),
             (''acknowledgementNumber'', dict_get data ''acknowledgementNumber''),
             (''errors'', dict_get_default data ''errors'' (JArr []))]"
      by (simp only: last_log_callback)
    then show "dict_get (callback_data_of (last (snd (donation_records_callback rt req callback_logs))))
                ''totalDonations'' = n"
      by (simp add: log_entry_def callback_data_of_def dict_get_def)
  qed
  show ?thesis using table com don by blast
qed

text \<open>
  On the sample payloads: \<^verbatim>\<open>totalRecords = 3.7\<close> is answered 200 and stored as 3,
  \<^verbatim>\<open>totalDonations = true\<close> is stored as 1, and \<^verbatim>\<open>totalRecords = "3.7"\<close> is rejected with
  400.
\<close>

theorem optional_count_fields_witness:
  "uen_pattern ''201234567D'' \<and> py_upper ''SUCCESS'' \<in> set allowed_statuses
   \<and> optional_int ''totalRecords'' (JFloat (Finite (37 / 10))) = Inr (JInt 3)
   \<and> snd (fst (commission_records_callback sample_runtime
        (sample_post ''3f2a9c1e-77aa'' (sample_commission_payload (JFloat (Finite (37 / 10)))))
        [])) = 200
   \<and> dict_get (callback_data_of (last (snd (commission_records_callback sample_runtime
        (sample_post ''3f2a9c1e-77aa'' (sample_commission_payload (JFloat (Finite (37 / 10)))))
        [])))) ''totalRecords'' = JInt 3
   \<and> dict_get (callback_data_of (last (snd (donation_records_callback sample_runtime
        (sample_post ''3f2a9c1e-77aa'' (sample_donation_payload (JBool True)))
        [])))) ''totalDonations'' = JInt 1
   \<and> commission_records_callback sample_runtime
        (sample_post ''3f2a9c1e-77aa'' (sample_commission_payload (JStr ''3.7''))) []
      = (create_error_response
           (sample_post ''3f2a9c1e-77aa'' (sample_commission_payload (JStr ''3.7'')))
           (ValidationError ''totalRecords must be a valid integer'' None)
           (JStr ''COM202501000001'') 400, [])"
proof -
  have i1: "optional_int ''totalRecords'' (JFloat (Finite (37 / 10))) = Inr (JInt 3)"
    by (simp add: optional_int_table truncate_examples)
  have i2: "optional_int ''totalDonations'' (JBool True) = Inr (JInt 1)"
    by (simp add: optional_int_table)
  have i3: "optional_int ''totalRecords'' (JStr ''3.7'')
      = Inl (ValidationError ''totalRecords must be a valid integer'' None)"
    by (simp add: optional_int_table int_eval char_eval)
  note a = optional_count_fields[where rt = sample_runtime and callback_logs = "[]"
      and req = "sample_post ''3f2a9c1e-77aa'' (sample_commission_payload (JFloat (Finite (37 / 10))))"
      and data = "sample_commission_payload (JFloat (Finite (37 / 10)))", OF sample_commission_hyps(1-8)]
  note b = optional_count_fields[where rt = sample_runtime and callback_logs = "[]"
      and req = "sample_post ''3f2a9c1e-77aa'' (sample_donation_payload (JBool True))"
      and data = "sample_donation_payload (JBool True)", OF sample_donation_hyps(1-8)]
  note c = optional_count_fields[where rt = sample_runtime and callback_logs = "[]"
      and req = "sample_post ''3f2a9c1e-77aa'' (sample_commission_payload (JStr ''3.7''))"
      and data = "sample_commission_payload (JStr ''3.7'')", OF sample_commission_hyps(1-8)]
  have c1: "snd (fst (commission_records_callback sample_runtime
        (sample_post ''3f2a9c1e-77aa'' (sample_commission_payload (JFloat (Finite (37 / 10)))))
        [])) = 200
    \<and> dict_get (callback_data_of (last (snd (commission_records_callback sample_runtime
        (sample_post ''3f2a9c1e-77aa'' (sample_commission_payload (JFloat (Finite (37 / 10)))))
        [])))) ''totalRecords'' = JInt 3"
    using a by (simp add: sample_commission_hyps i1)
  have c2: "dict_get (callback_data_of (last (snd (donation_records_callback sample_runtime
        (sample_post ''3f2a9c1e-77aa'' (sample_donation_payload (JBool True)))
        [])))) ''totalDonations'' = JInt 1"
    using b by (simp add: sample_donation_hyps i2)
  have c3: "commission_records_callback sample_runtime
        (sample_post ''3f2a9c1e-77aa'' (sample_commission_payload (JStr ''3.7''))) []
      = (create_error_response
           (sample_post ''3f2a9c1e-77aa'' (sample_commission_payload (JStr ''3.7'')))
           (ValidationError ''totalRecords must be a valid integer'' None)
           (JStr ''COM202501000001'') 400, [])"
    using c by (simp add: sample_commission_hyps i3)
  show ?thesis using i1 c1 c2 c3 sample_commission_hyps(6,8) by blast
qed

section \<open>Further properties of the code\<close>

text \<open>
  What the code does hold to where the claims above met a defect. A callback that any of
  the five handlers answers with 400 leaves the store as it was: every
  \<^verbatim>\<open>ValidationError\<close> is raised before \<^verbatim>\<open>log_callback\<close>. \<^verbatim>\<open>GET /logs\<close> with a positive limit
  returns the newest records, at most 50 and at most the limit, and 10 is the limit when
  none is given. The two patterns accept exactly the shapes of the specification and the
  same followed by one newline. A \<^verbatim>\<open>totalTaxAmount\<close> of \<^verbatim>\<open>10**400\<close> is answered 500 and
  nothing is stored: \<^verbatim>\<open>float\<close> raises \<^verbatim>\<open>OverflowError\<close>, which the handler catches only as
  \<^verbatim>\<open>Exception\<close>.
\<close>

lemma on_exception_code:
  "snd (on_exception req e sid) = (case e of ValidationError m f \<Rightarrow> 400 | _ \<Rightarrow> 500)"
  by (cases e) (simp_all add: on_exception_def create_error_response_def)

lemma on_exception_400:
  "snd (on_exception req e sid) = 400 \<longleftrightarrow> (\<exists>m f. e = ValidationError m f)"
  by (cases e) (simp_all add: on_exception_def create_error_response_def)

lemma gst_rejected_unchanged:
  "snd (fst (gst_return_callback rt req callback_logs)) = 400 \<Longrightarrow>
   snd (gst_return_callback rt req callback_logs) = callback_logs"
  unfolding gst_return_callback_def Let_def
  by (auto simp: on_exception_400 split: sum.splits prod.splits if_splits
      dest: log_errors_raises)

lemma form_cs_rejected_unchanged:
  "snd (fst (form_cs_callback rt req callback_logs)) = 400 \<Longrightarrow>
   snd (form_cs_callback rt req callback_logs) = callback_logs"
  unfolding form_cs_callback_def Let_def
  by (auto simp: on_exception_400 split: sum.splits prod.splits if_splits
      dest: log_errors_raises)

lemma commission_rejected_unchanged:
  "snd (fst (commission_records_callback rt req callback_logs)) = 400 \<Longrightarrow>
   snd (commission_records_callback rt req callback_logs) = callback_logs"
  unfolding commission_records_callback_def Let_def
  by (auto simp: on_exception_400 split: sum.splits prod.splits if_splits
      dest: log_errors_raises)

lemma donation_rejected_unchanged:
  "snd (fst (donation_records_callback rt req callback_logs)) = 400 \<Longrightarrow>
   snd (donation_records_callback rt req callback_logs) = callback_logs"
  unfolding donation_records_callback_def Let_def
  by (auto simp: on_exception_400 split: sum.splits prod.splits if_splits
      dest: log_errors_raises)

lemma e_stamping_rejected_unchanged:
  "snd (fst (e_stamping_callback rt req callback_logs)) = 400 \<Longrightarrow>
   snd (e_stamping_callback rt req callback_logs) = callback_logs"
  unfolding e_stamping_callback_def Let_def
  by (auto simp: on_exception_400 split: sum.splits prod.splits if_splits
      dest: log_errors_raises)

lemma limit_arg_default: "map_of (args req) ''limit'' = None \<Longrightarrow> limit_arg req = 10"
  by (simp add: limit_arg_def)

lemma slice_from_newest: "0 < k \<Longrightarrow> slice_from xs (- k) = newest (nat k) xs"
  by (auto simp: slice_from_def newest_def nat_diff_distrib')

lemma recent_logs_positive_limit:
  assumes "0 < limit_arg req"
  shows "recent_logs req callback_logs = newest (nat (min (limit_arg req) 50)) callback_logs"
    and "length (recent_logs req callback_logs) \<le> 50"
    and "length (recent_logs req callback_logs) \<le> nat (limit_arg req)"
proof -
  show a: "recent_logs req callback_logs = newest (nat (min (limit_arg req) 50)) callback_logs"
    using assms by (cases callback_logs) (simp_all add: recent_logs_def Let_def slice_from_newest newest_def)
  show "length (recent_logs req callback_logs) \<le> 50"
    unfolding a using length_newest[of "nat (min (limit_arg req) 50)" callback_logs] by simp
  show "length (recent_logs req callback_logs) \<le> nat (limit_arg req)"
    unfolding a using length_newest[of "nat (min (limit_arg req) 50)" callback_logs] by simp
qed

lemma take_butlast_last:
  "length s = Suc n \<Longrightarrow> take n s = butlast s \<and> s ! n = last s"
  by (cases s rule: rev_cases) (auto simp: nth_append)

lemma re_digits_letter_exact:
  "re_digits_letter n s \<longleftrightarrow>
     (length s = Suc n \<and> list_all is_digit (butlast s) \<and> is_upper_AZ (last s))
     \<or> (\<exists>t. s = t @ [CHR 0x0A] \<and> length t = Suc n \<and> list_all is_digit (butlast t)
              \<and> is_upper_AZ (last t))"
  (is "?L \<longleftrightarrow> ?A \<or> ?B")
proof
  assume L: ?L
  then have n: "n < length s" and d: "list_all is_digit (take n s)" and u: "is_upper_AZ (s ! n)"
    and e: "drop (Suc n) s = [] \<or> drop (Suc n) s = [CHR 0x0A]"
    by (simp_all add: re_digits_letter_def re_dollar_def)
  from e show "?A \<or> ?B"
  proof
    assume "drop (Suc n) s = []"
    then have len: "length s = Suc n" using n by simp
    then have "take n s = butlast s" "s ! n = last s"
      using take_butlast_last by blast+
    then show ?thesis using len d u by simp
  next
    assume nl: "drop (Suc n) s = [CHR 0x0A]"
    define t where "t = take (Suc n) s"
    have s: "s = t @ [CHR 0x0A]" unfolding t_def using nl by (metis append_take_drop_id)
    have len: "length t = Suc n" unfolding t_def using n by simp
    have "take n s = butlast t" "s ! n = last t"
      using len take_butlast_last[of t n] by (simp_all add: s nth_append)
    then show ?thesis using s len d u by auto
  qed
next
  assume "?A \<or> ?B"
  then show ?L
  proof
    assume A: ?A
    then have "take n s = butlast s" "s ! n = last s"
      using take_butlast_last by blast+
    then show ?thesis using A by (simp add: re_digits_letter_def re_dollar_def)
  next
    assume ?B
    then obtain t where s: "s = t @ [CHR 0x0A]" and len: "length t = Suc n"
      and d: "list_all is_digit (butlast t)" and u: "is_upper_AZ (last t)" by blast
    have "take n s = butlast t" "s ! n = last t"
      using len take_butlast_last[of t n] by (simp_all add: s nth_append)
    then show ?thesis using s len d u by (simp add: re_digits_letter_def re_dollar_def)
  qed
qed

lemma uen_pattern_exact:
  "uen_pattern s \<longleftrightarrow> uen_shape s \<or> (\<exists>t. s = t @ [CHR 0x0A] \<and> uen_shape t)"
  unfolding uen_pattern_def re_digits_letter_exact uen_shape_def by auto

lemma validate_uen_exact:
  "validate_uen (JStr s) =
     (if s = [] then Inl (ValidationError ''companyUEN is required'' None)
      else if uen_shape s \<or> (\<exists>t. s = t @ [CHR 0x0A] \<and> uen_shape t) then Inr s
      else Inl (ValidationError
             ''Invalid UEN format. Expected format: 12345678A or 123456789A'' None))"
proof (cases "s = []")
  case True
  then show ?thesis by (simp add: validate_uen_def)
next
  case False
  then show ?thesis using uen_pattern_exact[of s] by (simp add: validate_uen_def)
qed

lemma tax_period_pattern_exact:
  "tax_period_pattern s \<longleftrightarrow> six_digits s \<or> (\<exists>t. s = t @ [CHR 0x0A] \<and> six_digits t)"
proof
  assume L: "tax_period_pattern s"
  then have n: "6 \<le> length s" and d: "list_all is_digit (take 6 s)"
    and e: "drop 6 s = [] \<or> drop 6 s = [CHR 0x0A]"
    by (simp_all add: tax_period_pattern_def re_dollar_def)
  from e show "six_digits s \<or> (\<exists>t. s = t @ [CHR 0x0A] \<and> six_digits t)"
  proof
    assume "drop 6 s = []"
    then have "length s = 6" using n by simp
    then show ?thesis using d by (simp add: six_digits_def)
  next
    assume nl: "drop 6 s = [CHR 0x0A]"
    have "s = take 6 s @ [CHR 0x0A]" using nl by (metis append_take_drop_id)
    moreover have "six_digits (take 6 s)" using n d by (simp add: six_digits_def)
    ultimately show ?thesis by blast
  qed
next
  assume "six_digits s \<or> (\<exists>t. s = t @ [CHR 0x0A] \<and> six_digits t)"
  then show "tax_period_pattern s"
    by (auto simp: tax_period_pattern_def six_digits_def re_dollar_def)
qed

lemma gst_amount_overflow:
  assumes "cpython_float_of_int rt"
  shows "gst_return_callback rt
     (sample_post uuid
        ((''totalTaxAmount'', JInt (10 ^ 400)) # sample_gst_payload ''SUCCESS'' (JArr [])))
     callback_logs
   = (([(''status'', JStr ''error''),
        (''message'', JStr ''Error processing callback''),
        (''error_id'', JStr ''0f0e0d0c''),
        (''submissionId'', JStr ''GST202501001234''),
        (''timestamp'', JStr ''2025-01-15T14:30:01'')], 500),
      callback_logs)"
proof -
  have "float_overflow_bound \<le> \<bar>10 ^ 400 :: int\<bar>" by (simp add: float_overflow_bound_def)
  then have "float_of_int rt (10 ^ 400) = None"
    using assms unfolding cpython_float_of_int_def by blast
  then show ?thesis
    by (simp add: gst_eval upper_eval uen_eval tax_eval int_eval char_eval)
qed

end
